theory Spec2Isabelle
  imports Main "HOL-Library.Option_ord" "HOL-Library.Multiset"
begin

section \<open>Values, rows and the store\<close>

text \<open>
  The server is a set of Express handlers (server/routes.ts) over a Postgres store that
  is described by Drizzle table definitions (shared/schema.ts). A handler receives the
  parsed JSON body, the path and query parameters, and talks to the store through the
  query builder. The embedding keeps that shape:
  \<^item> a JavaScript value is a \<open>jsval\<close>; \<open>undefined\<close> is the absence of a value, so an
    object is a partial map from property names to values;
  \<^item> a stored row is such an object with one entry per column (SQL NULL is \<open>JNull\<close>);
  \<^item> the store maps a table name to the list of its rows, in insertion order;
  \<^item> a handler is a function from the request and the store to the response and the
    new store.
  Numbers are integers here (no handler computes with fractions), timestamps are
  milliseconds as integers, and text is a list of characters, the code units of a
  JavaScript string: a character below 128 is the ASCII character of that code, one
  above 127 stands for a code unit outside ASCII.
\<close>

datatype jsval =
    JNull
  | JBool bool
  | JNum int
  | JStr string
  | JDate int
  | JArr "jsval list"
  | JObj "(string \<times> jsval) list"

type_synonym obj = "string \<rightharpoonup> jsval"
type_synonym row = "string \<rightharpoonup> jsval"
type_synonym db = "string \<Rightarrow> row list"

text \<open>JavaScript truthiness, as \<open>if (x)\<close> tests it.\<close>

fun truthy :: "jsval option \<Rightarrow> bool" where
  "truthy None = False"
| "truthy (Some JNull) = False"
| "truthy (Some (JBool b)) = b"
| "truthy (Some (JNum n)) = (n \<noteq> 0)"
| "truthy (Some (JStr s)) = (s \<noteq> [])"
| "truthy (Some (JDate t)) = True"
| "truthy (Some (JArr xs)) = True"
| "truthy (Some (JObj kvs)) = True"

text \<open>
  What a request cannot fix and the source does not define: the clock (\<open>new Date()\<close> and
  the store's \<open>now()\<close>), the identifier the store draws for a \<open>defaultRandom()\<close> column,
  the random bytes \<open>nanoid\<close> reads, the two conversions of a non-string value to
  text that the language (\<open>String(v)\<close> in a template literal) and the database driver
  (a value bound to a text column) perform, and the upper case that Unicode gives a
  character outside ASCII, which is one character or several (\<open>SS\<close> for the sharp s).
  One \<open>env\<close> holds them for one request.
\<close>

record env =
  now :: int
  randomUUID :: string
  randomBytes :: "nat \<Rightarrow> nat"
  toString :: "jsval \<Rightarrow> string"
  prepareValue :: "jsval \<Rightarrow> string"
  upperCase :: "char \<Rightarrow> string"

datatype error =
    ZodError
  | TypeError
  | NotNullViolation
  | UniqueViolation
  | ForeignKeyViolation
  | InvalidTextRepresentation
  | NumericValueOutOfRange

text \<open>
  A handler answers with \<open>res.json(x)\<close> (status 200) or with
  \<open>res.status(n).json({ error: ... })\<close>, where the error text is a fixed string or the
  message of the exception that was caught.
\<close>

datatype errbody = Text string | MessageOf error

datatype 'a response = Json 'a | Status nat errbody

fun status_of :: "'a response \<Rightarrow> nat" where
  "status_of (Json x) = 200"
| "status_of (Status n e) = n"

subsection \<open>Strings\<close>

definition lower_letters :: string where
  "lower_letters = ''abcdefghijklmnopqrstuvwxyz''"

definition upper_letters :: string where
  "upper_letters = ''ABCDEFGHIJKLMNOPQRSTUVWXYZ''"



text \<open>
  The store writes a uuid in lower case; and \<open>toLowerCase\<close> is applied to nothing but the
  text of a uuid, whose letters are \<open>A\<close> to \<open>F\<close>.
\<close>

definition lower_char :: "char \<Rightarrow> char" where
  "lower_char c = (case map_of (zip upper_letters lower_letters) c of Some l \<Rightarrow> l | None \<Rightarrow> c)"

definition toLowerCase :: "string \<Rightarrow> string" where
  "toLowerCase s = map lower_char s"



text \<open>
  A uuid in its canonical text form: 8-4-4-4-12 hexadecimal digits. The validator's
  \<open>z.string().uuid()\<close> insists on it, and the store refuses text that is not a uuid
  where it expects one (the other spellings that the store reads, without hyphens or in
  braces, are left out of the model); the store keeps a uuid in lower case.
\<close>

definition hex_digit :: "char \<Rightarrow> bool" where
  "hex_digit c = (c \<in> set ''0123456789abcdefABCDEF'')"

definition is_uuid :: "string \<Rightarrow> bool" where
  "is_uuid s =
     (length s = 36
      \<and> list_all hex_digit (take 8 s) \<and> take 1 (drop 8 s) = ''-''
      \<and> list_all hex_digit (take 4 (drop 9 s)) \<and> take 1 (drop 13 s) = ''-''
      \<and> list_all hex_digit (take 4 (drop 14 s)) \<and> take 1 (drop 18 s) = ''-''
      \<and> list_all hex_digit (take 4 (drop 19 s)) \<and> take 1 (drop 23 s) = ''-''
      \<and> list_all hex_digit (drop 24 s))"

text \<open>
  \<open>nanoid(size)\<close>: \<open>size\<close> characters, each picked from the package's 64-character
  URL-safe alphabet by the low six bits of a random byte.
\<close>

definition urlAlphabet :: string where
  "urlAlphabet = ''useandom-26T198340PX75pxJACKVERYMINDBUSHWOLF_GQZbfghjklqvwyzrict''"

definition nanoid :: "env \<Rightarrow> nat \<Rightarrow> string" where
  "nanoid e n = map (\<lambda>i. urlAlphabet ! (randomBytes e i mod 64)) [0..<n]"

subsection \<open>Table definitions (shared/schema.ts)\<close>

datatype coltype = Uuid | Text_t | Boolean | Integer | Timestamp | Jsonb | Decimal

datatype dflt = NoDefault | Random | Now | Literal jsval

text \<open>
  A column, under the property name the handlers use for it (\<open>ownerId\<close> for
  \<open>uuid("owner_id")\<close>). \<open>uniq\<close> is set by \<open>primaryKey()\<close> and \<open>unique()\<close>; \<open>refs\<close> names
  the table whose \<open>id\<close> a \<open>references(...)\<close> column points to.
\<close>

record column =
  cname :: string
  ctype :: coltype
  not_null :: bool
  dflt_of :: dflt
  uniq :: bool
  refs :: "string option"

record table =
  tname :: string
  columns :: "column list"

definition col :: "coltype \<Rightarrow> string \<Rightarrow> column" where
  "col t k = \<lparr>cname = k, ctype = t, not_null = False, dflt_of = NoDefault, uniq = False, refs = None\<rparr>"

definition notNull :: "column \<Rightarrow> column" where
  "notNull c = c\<lparr>not_null := True\<rparr>"

definition primaryKey :: "column \<Rightarrow> column" where
  "primaryKey c = c\<lparr>not_null := True, uniq := True\<rparr>"

definition unique :: "column \<Rightarrow> column" where
  "unique c = c\<lparr>uniq := True\<rparr>"

definition defaultTo :: "jsval \<Rightarrow> column \<Rightarrow> column" where
  "defaultTo v c = c\<lparr>dflt_of := Literal v\<rparr>"

definition defaultNow :: "column \<Rightarrow> column" where
  "defaultNow c = c\<lparr>dflt_of := Now\<rparr>"

definition defaultRandom :: "column \<Rightarrow> column" where
  "defaultRandom c = c\<lparr>dflt_of := Random\<rparr>"

definition references :: "string \<Rightarrow> column \<Rightarrow> column" where
  "references t c = c\<lparr>refs := Some t\<rparr>"

definition codeSnippets :: table where
  "codeSnippets = \<lparr>tname = ''code_snippets'', columns = [
     defaultRandom (primaryKey (col Uuid ''id'')),
     defaultTo (JStr ''Untitled'') (notNull (col Text_t ''title'')),
     col Text_t ''description'',
     defaultTo (JStr '''') (col Text_t ''content''),
     defaultTo (JStr ''javascript'') (col Text_t ''language''),
     col Uuid ''ownerId'',
     defaultTo (JBool False) (col Boolean ''isProtected''),
     defaultTo (JBool False) (col Boolean ''isPublic''),
     defaultTo (JBool False) (col Boolean ''isFeatured''),
     defaultTo (JBool False) (col Boolean ''isTemporary''),
     col Timestamp ''expiresAt'',
     unique (notNull (col Text_t ''shareToken'')),
     notNull (defaultNow (col Timestamp ''createdAt'')),
     notNull (defaultNow (col Timestamp ''updatedAt''))]\<rparr>"

definition snippetMessages :: table where
  "snippetMessages = \<lparr>tname = ''snippet_messages'', columns = [
     defaultRandom (primaryKey (col Uuid ''id'')),
     references ''code_snippets'' (notNull (col Uuid ''snippetId'')),
     col Text_t ''userId'',
     notNull (col Text_t ''username''),
     defaultTo (JStr ''text'') (notNull (col Text_t ''messageType'')),
     col Text_t ''content'',
     col Text_t ''fileUrl'',
     col Text_t ''fileName'',
     col Integer ''fileSize'',
     col Text_t ''fileType'',
     defaultNow (col Timestamp ''createdAt''),
     defaultNow (col Timestamp ''updatedAt'')]\<rparr>"

definition codingChallenges :: table where
  "codingChallenges = \<lparr>tname = ''coding_challenges'', columns = [
     defaultRandom (primaryKey (col Uuid ''id'')),
     notNull (col Text_t ''title''),
     notNull (col Text_t ''description''),
     notNull (col Text_t ''difficulty''),
     notNull (col Text_t ''language''),
     defaultTo (JArr []) (notNull (col Jsonb ''testCases'')),
     defaultTo (JArr []) (notNull (col Jsonb ''hints'')),
     col Text_t ''constraints'',
     notNull (defaultNow (col Timestamp ''createdAt'')),
     col Uuid ''createdBy'']\<rparr>"

definition challengeSubmissions :: table where
  "challengeSubmissions = \<lparr>tname = ''challenge_submissions'', columns = [
     defaultRandom (primaryKey (col Uuid ''id'')),
     references ''coding_challenges'' (notNull (col Uuid ''challengeId'')),
     col Uuid ''userId'',
     col Text_t ''sessionId'',
     notNull (col Text_t ''code''),
     notNull (col Text_t ''language''),
     defaultTo (JNum 0) (notNull (col Integer ''score'')),
     col Text_t ''rank'',
     defaultTo (JArr []) (col Jsonb ''testResults''),
     col Text_t ''feedback'',
     defaultTo (JArr []) (col Jsonb ''strengths''),
     defaultTo (JArr []) (col Jsonb ''improvements''),
     col Integer ''executionTimeMs'',
     defaultTo (JNum 0) (col Integer ''hintsUsed''),
     notNull (defaultNow (col Timestamp ''submittedAt''))]\<rparr>"

definition userPracticeStats :: table where
  "userPracticeStats = \<lparr>tname = ''user_practice_stats'', columns = [
     primaryKey (col Uuid ''userId''),
     defaultTo (JNum 0) (col Integer ''totalChallenges''),
     defaultTo (JNum 0) (col Integer ''totalSubmissions''),
     defaultTo (JStr ''0.00'') (col Decimal ''averageScore''),
     col Text_t ''bestRank'',
     defaultTo (JObj []) (col Jsonb ''languagesPracticed''),
     defaultTo (JObj []) (col Jsonb ''difficultyBreakdown''),
     defaultTo (JObj []) (col Jsonb ''rankDistribution''),
     notNull (defaultTo (JNum 0) (col Integer ''totalPoints'')),
     notNull (defaultTo (JNum 0) (col Integer ''currentStreak'')),
     notNull (defaultTo (JNum 0) (col Integer ''longestStreak'')),
     col Timestamp ''lastSubmissionDate'',
     notNull (defaultNow (col Timestamp ''updatedAt''))]\<rparr>"

definition keys_of :: "table \<Rightarrow> string list" where
  "keys_of t = map cname (columns t)"

subsection \<open>Validators (drizzle-zod)\<close>

text \<open>
  \<open>createInsertSchema(table)\<close> derives one field per column: its type from the column
  type, nullable unless the column is NOT NULL, optional when it is nullable or has a
  default. \<open>createSelectSchema(table)\<close> describes a stored row: the same fields, none of
  them optional. \<open>.omit({...})\<close> removes fields. \<open>schema.parse(x)\<close> throws unless every
  field passes, and returns \<open>x\<close> cut down to the schema's fields: a key the schema does
  not have is dropped.
\<close>

record zfield =
  zkey :: string
  ztype :: coltype
  nullable :: bool
  optional :: bool

definition createInsertSchema :: "table \<Rightarrow> zfield list" where
  "createInsertSchema t =
     map (\<lambda>c. \<lparr>zkey = cname c, ztype = ctype c, nullable = \<not> not_null c,
               optional = (\<not> not_null c \<or> dflt_of c \<noteq> NoDefault)\<rparr>) (columns t)"

definition createSelectSchema :: "table \<Rightarrow> zfield list" where
  "createSelectSchema t =
     map (\<lambda>c. \<lparr>zkey = cname c, ztype = ctype c, nullable = \<not> not_null c,
               optional = False\<rparr>) (columns t)"

definition omit :: "string list \<Rightarrow> zfield list \<Rightarrow> zfield list" where
  "omit ks sch = filter (\<lambda>f. zkey f \<notin> set ks) sch"

fun has_type :: "coltype \<Rightarrow> jsval \<Rightarrow> bool" where
  "has_type Jsonb v = True"
| "has_type Uuid (JStr s) = is_uuid s"
| "has_type Text_t (JStr s) = True"
| "has_type Decimal (JStr s) = True"
| "has_type Boolean (JBool b) = True"
| "has_type Integer (JNum n) = True"
| "has_type Timestamp (JDate t) = True"
| "has_type t v = False"

definition field_ok :: "zfield \<Rightarrow> jsval option \<Rightarrow> bool" where
  "field_ok f v =
     (case v of
        None \<Rightarrow> optional f
      | Some JNull \<Rightarrow> nullable f \<or> ztype f = Jsonb
      | Some x \<Rightarrow> has_type (ztype f) x)"

definition parse :: "zfield list \<Rightarrow> obj \<Rightarrow> error + obj" where
  "parse sch x =
     (if list_all (\<lambda>f. field_ok f (x (zkey f))) sch
      then Inr (\<lambda>k. if k \<in> set (map zkey sch) then x k else None)
      else Inl ZodError)"

definition insertCodeSnippetSchema :: "zfield list" where
  "insertCodeSnippetSchema =
     omit [''id'', ''createdAt'', ''updatedAt'', ''shareToken''] (createInsertSchema codeSnippets)"

definition insertChallengeSubmissionSchema :: "zfield list" where
  "insertChallengeSubmissionSchema =
     omit [''id'', ''submittedAt''] (createInsertSchema challengeSubmissions)"

subsection \<open>The store\<close>

text \<open>
  What the store does with a value bound to a column. A jsonb column takes any value (it
  is sent as JSON text, so a JSON null is not an SQL NULL); NULL is refused by a NOT NULL
  column; a uuid must parse; an integer must fit the 32-bit \<open>integer\<close> type; the driver
  renders a non-string value for a text column with \<open>prepareValue\<close>; the query builder
  calls \<open>toISOString\<close> on the value of a timestamp column, which throws unless it is a
  Date. The remaining combinations are not bound by any handler here (the validator has
  typed the value, or it is a literal of the source) and are refused.
\<close>

definition int4 :: "int \<Rightarrow> bool" where
  "int4 n = (- 2147483648 \<le> n \<and> n \<le> 2147483647)"

fun bind_value :: "env \<Rightarrow> coltype \<Rightarrow> bool \<Rightarrow> jsval \<Rightarrow> error + jsval" where
  "bind_value e Jsonb nn v = Inr v"
| "bind_value e t nn JNull = (if nn then Inl NotNullViolation else Inr JNull)"
| "bind_value e Uuid nn (JStr s) =
     (if is_uuid s then Inr (JStr (toLowerCase s)) else Inl InvalidTextRepresentation)"
| "bind_value e Text_t nn (JStr s) = Inr (JStr s)"
| "bind_value e Text_t nn v = Inr (JStr (prepareValue e v))"
| "bind_value e Decimal nn (JStr s) = Inr (JStr s)"
| "bind_value e Boolean nn (JBool b) = Inr (JBool b)"
| "bind_value e Integer nn (JNum n) = (if int4 n then Inr (JNum n) else Inl NumericValueOutOfRange)"
| "bind_value e Timestamp nn (JDate d) = Inr (JDate d)"
| "bind_value e Timestamp nn v = Inl TypeError"
| "bind_value e t nn v = Inl InvalidTextRepresentation"

text \<open>A column the statement gives no value (\<open>undefined\<close>) takes its default, NULL when it has none.\<close>

definition default_value :: "env \<Rightarrow> column \<Rightarrow> error + jsval" where
  "default_value e c =
     (case dflt_of c of
        NoDefault \<Rightarrow> if not_null c then Inl NotNullViolation else Inr JNull
      | Random \<Rightarrow> Inr (JStr (randomUUID e))
      | Now \<Rightarrow> Inr (JDate (now e))
      | Literal v \<Rightarrow> Inr v)"

definition cell :: "env \<Rightarrow> column \<Rightarrow> jsval option \<Rightarrow> error + jsval" where
  "cell e c v =
     (case v of None \<Rightarrow> default_value e c | Some x \<Rightarrow> bind_value e (ctype c) (not_null c) x)"

text \<open>The row an INSERT builds: one cell per column of the table; other keys of the values object are ignored.\<close>

fun build_row :: "env \<Rightarrow> column list \<Rightarrow> obj \<Rightarrow> error + row" where
  "build_row e [] vals = Inr Map.empty"
| "build_row e (c # cs) vals =
     (case cell e c (vals (cname c)) of
        Inl err \<Rightarrow> Inl err
      | Inr v \<Rightarrow>
          (case build_row e cs vals of
             Inl err \<Rightarrow> Inl err
           | Inr r \<Rightarrow> Inr (r(cname c \<mapsto> v))))"

definition unique_ok :: "column list \<Rightarrow> row list \<Rightarrow> row \<Rightarrow> bool" where
  "unique_ok cs rows r =
     list_all (\<lambda>c. \<not> uniq c \<or> r (cname c) = Some JNull
                    \<or> list_all (\<lambda>r'. r' (cname c) \<noteq> r (cname c)) rows) cs"

definition foreign_ok :: "db \<Rightarrow> column list \<Rightarrow> row \<Rightarrow> bool" where
  "foreign_ok d cs r =
     list_all (\<lambda>c. case refs c of
                      None \<Rightarrow> True
                    | Some t \<Rightarrow> r (cname c) = Some JNull
                               \<or> list_ex (\<lambda>r'. r' ''id'' = r (cname c)) (d t)) cs"

text \<open>\<open>db.insert(t).values(vals).returning()\<close>: the stored row and the new store, or the store's error.\<close>

definition insert_values :: "env \<Rightarrow> db \<Rightarrow> table \<Rightarrow> obj \<Rightarrow> error + row \<times> db" where
  "insert_values e d t vals =
     (case build_row e (columns t) vals of
        Inl err \<Rightarrow> Inl err
      | Inr r \<Rightarrow>
          if \<not> unique_ok (columns t) (d (tname t)) r then Inl UniqueViolation
          else if \<not> foreign_ok d (columns t) r then Inl ForeignKeyViolation
          else Inr (r, d(tname t := d (tname t) @ [r])))"

text \<open>
  Conditions: \<open>eq(column, text)\<close> and \<open>and(...)\<close>. The statement fails when the text
  compared with a uuid column is not a uuid, whatever the table holds.
\<close>

datatype cond = Eq string string | And "cond list"

definition column_type :: "table \<Rightarrow> string \<Rightarrow> coltype option" where
  "column_type t k = map_option ctype (find (\<lambda>c. cname c = k) (columns t))"

fun well_typed :: "table \<Rightarrow> cond \<Rightarrow> bool" where
  "well_typed t (Eq k s) =
     (case column_type t k of None \<Rightarrow> False | Some Uuid \<Rightarrow> is_uuid s | Some ty \<Rightarrow> True)"
| "well_typed t (And cs) = list_all (well_typed t) cs"

fun holds :: "table \<Rightarrow> cond \<Rightarrow> row \<Rightarrow> bool" where
  "holds t (Eq k s) r =
     (r k = Some (JStr (if column_type t k = Some Uuid then toLowerCase s else s)))"
| "holds t (And cs) r = list_all (\<lambda>c. holds t c r) cs"

definition select_from :: "db \<Rightarrow> table \<Rightarrow> cond option \<Rightarrow> error + row list" where
  "select_from d t w =
     (case w of
        None \<Rightarrow> Inr (d (tname t))
      | Some c \<Rightarrow>
          if well_typed t c then Inr (filter (holds t c) (d (tname t)))
          else Inl InvalidTextRepresentation)"

text \<open>
  \<open>ORDER BY k DESC\<close> on a timestamp column: later first, rows without a value before
  all others (the store's NULLS FIRST for a descending order); rows that compare equal
  keep their order in the model. \<open>LIMIT n\<close> keeps the first \<open>n\<close>.
\<close>

definition desc_rank :: "string \<Rightarrow> row \<Rightarrow> int option" where
  "desc_rank k r = (case r k of Some (JDate t) \<Rightarrow> Some (- t) | _ \<Rightarrow> None)"

definition orderBy_desc :: "string \<Rightarrow> row list \<Rightarrow> row list" where
  "orderBy_desc k rows = sort_key (desc_rank k) rows"

definition limit :: "nat \<Rightarrow> row list \<Rightarrow> row list" where
  "limit n rows = take n rows"

fun map_result :: "('a \<Rightarrow> error + 'b) \<Rightarrow> 'a list \<Rightarrow> error + 'b list" where
  "map_result f [] = Inr []"
| "map_result f (x # xs) =
     (case f x of
        Inl err \<Rightarrow> Inl err
      | Inr y \<Rightarrow> (case map_result f xs of Inl err \<Rightarrow> Inl err | Inr ys \<Rightarrow> Inr (y # ys)))"

text \<open>
  \<open>db.update(t).set(s).where(c).returning()\<close>: an entry of \<open>s\<close> that is \<open>undefined\<close> is
  left out of the statement; every row that satisfies \<open>c\<close> gets the other entries,
  bound as for an insert; the statement fails as a whole. It returns the rows it
  changed. (No statement of the handlers sets a unique or a referencing column.)
\<close>

fun apply_set :: "env \<Rightarrow> column list \<Rightarrow> obj \<Rightarrow> row \<Rightarrow> error + row" where
  "apply_set e [] s r = Inr r"
| "apply_set e (c # cs) s r =
     (case s (cname c) of
        None \<Rightarrow> apply_set e cs s r
      | Some v \<Rightarrow>
          (case bind_value e (ctype c) (not_null c) v of
             Inl err \<Rightarrow> Inl err
           | Inr x \<Rightarrow> apply_set e cs s (r(cname c \<mapsto> x))))"

definition update_set_where :: "env \<Rightarrow> db \<Rightarrow> table \<Rightarrow> obj \<Rightarrow> cond \<Rightarrow> error + row list \<times> db" where
  "update_set_where e d t s c =
     (if \<not> well_typed t c then Inl InvalidTextRepresentation
      else case map_result (\<lambda>r. if holds t c r then apply_set e (columns t) s r else Inr r)
                  (d (tname t)) of
             Inl err \<Rightarrow> Inl err
           | Inr rows \<Rightarrow>
               Inr (map snd (filter (\<lambda>(r, r'). holds t c r) (zip (d (tname t)) rows)),
                    d(tname t := rows)))"

text \<open>
  SQL addition on an integer column, as in \<open>sql`${column} + 1`\<close>: NULL stays NULL, and a
  sum outside the 32-bit range is an error of the statement. (An integer column of a
  stored row holds a number or NULL; anything else is refused.)
\<close>

fun sql_add :: "jsval option \<Rightarrow> int \<Rightarrow> error + jsval" where
  "sql_add (Some (JNum n)) k = (if int4 (n + k) then Inr (JNum (n + k)) else Inl NumericValueOutOfRange)"
| "sql_add (Some JNull) k = Inr JNull"
| "sql_add v k = Inl InvalidTextRepresentation"

text \<open>
  \<open>db.insert(t).values(vals).onConflictDoUpdate({ target, set })\<close>: when a stored row
  has the new row's value in the target column, that row is rewritten by \<open>set\<close> (a
  function of the stored row, since its expressions read the stored columns) and nothing
  is inserted; otherwise the new row is inserted.
\<close>

definition insert_onConflictDoUpdate ::
    "env \<Rightarrow> db \<Rightarrow> table \<Rightarrow> obj \<Rightarrow> string \<Rightarrow> (row \<Rightarrow> error + row) \<Rightarrow> error + db" where
  "insert_onConflictDoUpdate e d t vals target upd =
     (case build_row e (columns t) vals of
        Inl err \<Rightarrow> Inl err
      | Inr r \<Rightarrow>
          if list_ex (\<lambda>r'. r' target = r target) (d (tname t))
          then (case map_result (\<lambda>r'. if r' target = r target then upd r' else Inr r')
                       (d (tname t)) of
                  Inl err \<Rightarrow> Inl err
                | Inr rows \<Rightarrow> Inr (d(tname t := rows)))
          else if \<not> unique_ok (columns t) (d (tname t)) r then Inl UniqueViolation
          else if \<not> foreign_ok d (columns t) r then Inl ForeignKeyViolation
          else Inr (d(tname t := d (tname t) @ [r])))"

section \<open>The handlers (server/routes.ts)\<close>

text \<open>
  Each handler is the body of its \<open>try\<close> block, with the \<open>catch\<close> block as the branch
  an error takes. \<open>req.body\<close> is the JSON object the body parser produced, \<open>req.query\<close>
  maps a query parameter to its text, path parameters are text. A handler returns its
  response and the store it leaves; one that issues no writing statement returns the
  store it was given.
\<close>

definition internal_server_error :: "'a response" where
  "internal_server_error = Status 500 (Text ''Internal server error'')"


subsection \<open>POST /api/snippets\<close>

definition post_snippets :: "env \<Rightarrow> db \<Rightarrow> obj \<Rightarrow> row response \<times> db" where
  "post_snippets e d body =
     (case parse insertCodeSnippetSchema body of
        Inl err \<Rightarrow> (Status 400 (MessageOf err), d)
      | Inr data \<Rightarrow>
          (let shareToken = nanoid e 12 in
           case insert_values e d codeSnippets (data(''shareToken'' \<mapsto> JStr shareToken)) of
             Inl err \<Rightarrow> (Status 400 (MessageOf err), d)
           | Inr (snippet, d') \<Rightarrow> (Json snippet, d')))"

subsection \<open>GET /api/snippets/:shareToken\<close>

definition get_snippet :: "db \<Rightarrow> string \<Rightarrow> row response \<times> db" where
  "get_snippet d shareToken =
     (case select_from d codeSnippets (Some (Eq ''shareToken'' shareToken)) of
        Inl err \<Rightarrow> (internal_server_error, d)
      | Inr rows \<Rightarrow>
          (case limit 1 rows of
             [] \<Rightarrow> (Status 404 (Text ''Snippet not found''), d)
           | snippet # rest \<Rightarrow> (Json snippet, d)))"

subsection \<open>PATCH /api/snippets/:shareToken\<close>

definition patch_snippet :: "env \<Rightarrow> db \<Rightarrow> string \<Rightarrow> obj \<Rightarrow> row response \<times> db" where
  "patch_snippet e d shareToken body =
     (let content = body ''content''; title = body ''title'';
          description = body ''description''; language = body ''language'' in
      case update_set_where e d codeSnippets
             (Map.empty(''content'' := content, ''title'' := title,
                        ''description'' := description, ''language'' := language,
                        ''updatedAt'' \<mapsto> JDate (now e)))
             (Eq ''shareToken'' shareToken) of
        Inl err \<Rightarrow> (internal_server_error, d)
      | Inr (rows, d') \<Rightarrow>
          (case rows of
             [] \<Rightarrow> (Status 404 (Text ''Snippet not found''), d')
           | snippet # rest \<Rightarrow> (Json snippet, d')))"

subsection \<open>GET /api/snippets/:snippetId/messages\<close>

definition get_messages :: "db \<Rightarrow> string \<Rightarrow> row list response \<times> db" where
  "get_messages d snippetId =
     (case select_from d snippetMessages (Some (Eq ''snippetId'' snippetId)) of
        Inl err \<Rightarrow> (internal_server_error, d)
      | Inr rows \<Rightarrow> (Json (limit 100 (orderBy_desc ''createdAt'' rows)), d))"

subsection \<open>POST /api/coding-challenges/generate\<close>


subsection \<open>GET /api/coding-challenges\<close>

text \<open>\<open>if (x) { conditions.push(eq(column, x)) }\<close> for a query parameter \<open>x\<close>, which is a string or \<open>undefined\<close>.\<close>

definition push_if :: "string \<Rightarrow> string option \<Rightarrow> cond list \<Rightarrow> cond list" where
  "push_if k x conditions =
     (case x of
        None \<Rightarrow> conditions
      | Some s \<Rightarrow> if truthy (Some (JStr s)) then conditions @ [Eq k s] else conditions)"

definition list_challenges :: "db \<Rightarrow> (string \<rightharpoonup> string) \<Rightarrow> row list response \<times> db" where
  "list_challenges d query =
     (let difficulty = query ''difficulty''; language = query ''language'';
          conditions = push_if ''language'' language (push_if ''difficulty'' difficulty []) in
      case select_from d codingChallenges
             (if length conditions > 0 then Some (And conditions) else None) of
        Inl err \<Rightarrow> (internal_server_error, d)
      | Inr rows \<Rightarrow> (Json (limit 50 (orderBy_desc ''createdAt'' rows)), d))"

subsection \<open>POST /api/coding-challenges/:challengeId/submit\<close>

definition submit_challenge :: "env \<Rightarrow> db \<Rightarrow> string \<Rightarrow> obj \<Rightarrow> row response \<times> db" where
  "submit_challenge e d challengeId body =
     (case parse insertChallengeSubmissionSchema (body(''challengeId'' \<mapsto> JStr challengeId)) of
        Inl err \<Rightarrow> (Status 400 (MessageOf err), d)
      | Inr data \<Rightarrow>
          (let testResults = JArr [JObj [(''passed'', JBool True), (''input'', JStr ''test''),
                                         (''expected'', JStr ''test''), (''actual'', JStr ''test'')]];
               score = 100;
               rank = ''A+'' in
           case insert_values e d challengeSubmissions
                  (data(''score'' \<mapsto> JNum score, ''rank'' \<mapsto> JStr rank,
                        ''testResults'' \<mapsto> testResults,
                        ''feedback'' \<mapsto> JStr ''Great work!'',
                        ''strengths'' \<mapsto> JArr [JStr ''Clean code'', JStr ''Efficient solution''],
                        ''improvements'' \<mapsto> JArr [])) of
             Inl err \<Rightarrow> (Status 400 (MessageOf err), d)
           | Inr (submission, d1) \<Rightarrow>
               if truthy (data ''userId'') then
                 (case insert_onConflictDoUpdate e d1 userPracticeStats
                         (Map.empty(''userId'' := data ''userId'',
                                    ''totalChallenges'' \<mapsto> JNum 1,
                                    ''totalSubmissions'' \<mapsto> JNum 1,
                                    ''averageScore'' \<mapsto> JStr ''100.00'',
                                    ''totalPoints'' \<mapsto> JNum score))
                         ''userId''
                         (\<lambda>stored.
                            case sql_add (stored ''totalSubmissions'') 1 of
                              Inl err \<Rightarrow> Inl err
                            | Inr totalSubmissions \<Rightarrow>
                                (case sql_add (stored ''totalPoints'') score of
                                   Inl err \<Rightarrow> Inl err
                                 | Inr totalPoints \<Rightarrow>
                                     Inr (stored(''totalSubmissions'' \<mapsto> totalSubmissions,
                                                 ''totalPoints'' \<mapsto> totalPoints,
                                                 ''updatedAt'' \<mapsto> JDate (now e))))) of
                    Inl err \<Rightarrow> (Status 400 (MessageOf err), d1)
                  | Inr d2 \<Rightarrow> (Json submission, d2))
               else (Json submission, d1)))"

subsection \<open>POST /api/code/format\<close>

definition format_code :: "obj \<Rightarrow> obj response" where
  "format_code body =
     (let code = body ''code''; language = body ''language'' in
      Json (Map.empty(''formattedCode'' := code)))"

subsection \<open>GET /api/users/:userId/stats\<close>

definition get_user_stats :: "db \<Rightarrow> string \<Rightarrow> obj response \<times> db" where
  "get_user_stats d userId =
     (case select_from d userPracticeStats (Some (Eq ''userId'' userId)) of
        Inl err \<Rightarrow> (internal_server_error, d)
      | Inr rows \<Rightarrow>
          (case limit 1 rows of
             stats # rest \<Rightarrow> (Json stats, d)
           | [] \<Rightarrow>
               (Json (Map.empty(
                 ''userId'' \<mapsto> JStr userId,
                 ''totalChallenges'' \<mapsto> JNum 0,
                 ''totalSubmissions'' \<mapsto> JNum 0,
                 ''averageScore'' \<mapsto> JStr ''0.00'',
                 ''totalPoints'' \<mapsto> JNum 0,
                 ''currentStreak'' \<mapsto> JNum 0,
                 ''longestStreak'' \<mapsto> JNum 0)), d)))"


section \<open>Vocabulary of the properties\<close>

text \<open>
  \<open>precedes k a b\<close>: row \<open>a\<close> may stand before row \<open>b\<close> in a list that is ordered by the
  timestamp \<open>k\<close>, newest first: \<open>a\<close> has no timestamp, or both have one and \<open>a\<close>'s is
  not the earlier. \<open>strictly_newer k a b\<close>: both have one and \<open>a\<close>'s is the later.
\<close>

definition precedes :: "string \<Rightarrow> row \<Rightarrow> row \<Rightarrow> bool" where
  "precedes k a b =
     (case a k of
        Some (JDate s) \<Rightarrow> (case b k of Some (JDate t) \<Rightarrow> t \<le> s | _ \<Rightarrow> False)
      | _ \<Rightarrow> True)"

definition strictly_newer :: "string \<Rightarrow> row \<Rightarrow> row \<Rightarrow> bool" where
  "strictly_newer k a b =
     (case a k of
        Some (JDate s) \<Rightarrow> (case b k of Some (JDate t) \<Rightarrow> t < s | _ \<Rightarrow> False)
      | _ \<Rightarrow> False)"

text \<open>
  \<open>asked x v\<close>: the cell \<open>v\<close> passes the filter that the query parameter \<open>x\<close> asks for.
  A parameter that is missing or empty asks for nothing.
\<close>

definition asked :: "string option \<Rightarrow> jsval option \<Rightarrow> bool" where
  "asked x v = (case x of None \<Rightarrow> True | Some s \<Rightarrow> s = [] \<or> v = Some (JStr s))"



section \<open>Sample stores and requests\<close>

text \<open>Concrete rows, stores and requests, on which the theorems below are instantiated.\<close>

definition snippet :: "string \<Rightarrow> string \<Rightarrow> string \<Rightarrow> string \<Rightarrow> row" where
  "snippet ident title content shareToken =
     Map.empty(''id'' \<mapsto> JStr ident, ''title'' \<mapsto> JStr title, ''description'' \<mapsto> JNull,
       ''content'' \<mapsto> JStr content, ''language'' \<mapsto> JStr ''javascript'', ''ownerId'' \<mapsto> JNull,
       ''isProtected'' \<mapsto> JBool False, ''isPublic'' \<mapsto> JBool True,
       ''isFeatured'' \<mapsto> JBool False, ''isTemporary'' \<mapsto> JBool False,
       ''expiresAt'' \<mapsto> JNull, ''shareToken'' \<mapsto> JStr shareToken,
       ''createdAt'' \<mapsto> JDate 500, ''updatedAt'' \<mapsto> JDate 500)"

definition snippet_a :: string where
  "snippet_a = ''11111111-1111-4111-8111-111111111111''"

definition fizzbuzz :: row where
  "fizzbuzz = snippet snippet_a ''FizzBuzz'' ''for (;;) {}'' ''V1StGXR8_Z5j''"

definition snippets :: db where
  "snippets = (\<lambda>t. [])(''code_snippets'' := [fizzbuzz])"

definition message :: "string \<Rightarrow> string \<Rightarrow> string \<Rightarrow> string \<Rightarrow> int \<Rightarrow> row" where
  "message ident snippetId username content t =
     Map.empty(''id'' \<mapsto> JStr ident, ''snippetId'' \<mapsto> JStr snippetId, ''userId'' \<mapsto> JNull,
       ''username'' \<mapsto> JStr username, ''messageType'' \<mapsto> JStr ''text'',
       ''content'' \<mapsto> JStr content, ''fileUrl'' \<mapsto> JNull, ''fileName'' \<mapsto> JNull,
       ''fileSize'' \<mapsto> JNull, ''fileType'' \<mapsto> JNull,
       ''createdAt'' \<mapsto> JDate t, ''updatedAt'' \<mapsto> JDate t)"

definition hello :: row where
  "hello = message ''aaaaaaaa-0000-4000-8000-000000000001'' snippet_a ''ann'' ''hello'' 1000"

definition again :: row where
  "again = message ''aaaaaaaa-0000-4000-8000-000000000002'' snippet_a ''bob'' ''hello again'' 1000"

definition later :: row where
  "later = message ''aaaaaaaa-0000-4000-8000-000000000003'' snippet_a ''ann'' ''later'' 2000"

definition chat :: db where
  "chat = (\<lambda>t. [])(''code_snippets'' := [fizzbuzz], ''snippet_messages'' := [hello, again, later])"

definition challenge :: "string \<Rightarrow> string \<Rightarrow> string \<Rightarrow> int \<Rightarrow> row" where
  "challenge ident difficulty language t =
     Map.empty(''id'' \<mapsto> JStr ident, ''title'' \<mapsto> JStr ''Warm-up'',
       ''description'' \<mapsto> JStr ''Reverse a list.'', ''difficulty'' \<mapsto> JStr difficulty,
       ''language'' \<mapsto> JStr language, ''testCases'' \<mapsto> JArr [], ''hints'' \<mapsto> JArr [],
       ''constraints'' \<mapsto> JNull, ''createdAt'' \<mapsto> JDate t, ''createdBy'' \<mapsto> JNull)"

definition easy_python :: row where
  "easy_python = challenge ''cccccccc-0000-4000-8000-000000000001'' ''easy'' ''python'' 3000"

definition hard_python :: row where
  "hard_python = challenge ''cccccccc-0000-4000-8000-000000000002'' ''hard'' ''python'' 2000"

definition easy_javascript :: row where
  "easy_javascript = challenge ''cccccccc-0000-4000-8000-000000000003'' ''easy'' ''javascript'' 1000"

definition challenges :: db where
  "challenges = (\<lambda>t. [])(''coding_challenges'' := [easy_javascript, hard_python, easy_python])"

definition easy_python_query :: "string \<rightharpoonup> string" where
  "easy_python_query = Map.empty(''difficulty'' \<mapsto> ''easy'', ''language'' \<mapsto> ''python'')"

definition user_a :: string where
  "user_a = ''22222222-2222-4222-8222-222222222222''"

definition user_b :: string where
  "user_b = ''33333333-3333-4333-8333-333333333333''"

definition stats_row :: "string \<Rightarrow> int \<Rightarrow> int \<Rightarrow> row" where
  "stats_row userId submissions points =
     Map.empty(''userId'' \<mapsto> JStr userId, ''totalChallenges'' \<mapsto> JNum 1,
       ''totalSubmissions'' \<mapsto> JNum submissions, ''averageScore'' \<mapsto> JStr ''100.00'',
       ''bestRank'' \<mapsto> JNull, ''languagesPracticed'' \<mapsto> JObj [],
       ''difficultyBreakdown'' \<mapsto> JObj [], ''rankDistribution'' \<mapsto> JObj [],
       ''totalPoints'' \<mapsto> JNum points, ''currentStreak'' \<mapsto> JNum 0,
       ''longestStreak'' \<mapsto> JNum 0, ''lastSubmissionDate'' \<mapsto> JNull,
       ''updatedAt'' \<mapsto> JDate 4000)"

definition stats_a :: row where
  "stats_a = stats_row user_a 3 300"

definition practice :: db where
  "practice = (\<lambda>t. [])(''coding_challenges'' := [easy_python],
                          ''user_practice_stats'' := [stats_a])"

text \<open>
  In the sample environments the character of code 223 is the sharp s, whose upper case
  is \<open>SS\<close>; they leave the other characters above 127 as they are.
\<close>

definition sharp_s :: char where
  "sharp_s = CHR 0xDF"

definition sample_upperCase :: "char \<Rightarrow> string" where
  "sample_upperCase c = (if c = sharp_s then ''SS'' else [c])"

definition clock :: env where
  "clock = \<lparr>now = 5000, randomUUID = ''dddddddd-0000-4000-8000-000000000009'',
            randomBytes = (\<lambda>i. 7 * i + 3), toString = (\<lambda>v. ''[value]''),
            prepareValue = (\<lambda>v. ''[value]''), upperCase = sample_upperCase\<rparr>"







definition edit_request :: obj where
  "edit_request = Map.empty(''content'' \<mapsto> JStr ''print(1)'', ''language'' \<mapsto> JStr ''python'',
                            ''shareToken'' \<mapsto> JStr ''stolen'', ''isPublic'' \<mapsto> JBool False)"

definition new_snippet_request :: obj where
  "new_snippet_request = Map.empty(''title'' \<mapsto> JStr ''Hello'', ''content'' \<mapsto> JStr ''puts 1'',
                                   ''language'' \<mapsto> JStr ''ruby'', ''isPublic'' \<mapsto> JBool True)"

definition untitled_request :: obj where
  "untitled_request = Map.empty(''title'' \<mapsto> JNull, ''content'' \<mapsto> JStr ''puts 1'')"

definition challenge_1 :: string where
  "challenge_1 = ''cccccccc-0000-4000-8000-000000000001''"

definition submission_request :: "string \<Rightarrow> obj" where
  "submission_request userId =
     Map.empty(''code'' \<mapsto> JStr ''print(1)'', ''language'' \<mapsto> JStr ''python'',
               ''userId'' \<mapsto> JStr userId)"

definition clock2 :: env where
  "clock2 = \<lparr>now = 6000, randomUUID = ''dddddddd-0000-4000-8000-000000000010'',
             randomBytes = (\<lambda>i. 5 * i + 1), toString = (\<lambda>v. ''[value]''),
             prepareValue = (\<lambda>v. ''[value]''), upperCase = sample_upperCase\<rparr>"

text \<open>The submission row and the first stats row that the submit handler stores.\<close>

definition stored_submission :: "env \<Rightarrow> string \<Rightarrow> string \<Rightarrow> row" where
  "stored_submission e challengeId userId =
     Map.empty(''submittedAt'' \<mapsto> JDate (now e), ''hintsUsed'' \<mapsto> JNum 0,
       ''executionTimeMs'' \<mapsto> JNull, ''improvements'' \<mapsto> JArr [],
       ''strengths'' \<mapsto> JArr [JStr ''Clean code'', JStr ''Efficient solution''],
       ''feedback'' \<mapsto> JStr ''Great work!'',
       ''testResults'' \<mapsto> JArr [JObj [(''passed'', JBool True), (''input'', JStr ''test''),
                                       (''expected'', JStr ''test''), (''actual'', JStr ''test'')]],
       ''rank'' \<mapsto> JStr ''A+'', ''score'' \<mapsto> JNum 100,
       ''language'' \<mapsto> JStr ''python'', ''code'' \<mapsto> JStr ''print(1)'',
       ''sessionId'' \<mapsto> JNull, ''userId'' \<mapsto> JStr (toLowerCase userId),
       ''challengeId'' \<mapsto> JStr (toLowerCase challengeId), ''id'' \<mapsto> JStr (randomUUID e))"

definition first_stats :: "env \<Rightarrow> string \<Rightarrow> row" where
  "first_stats e userId =
     Map.empty(''updatedAt'' \<mapsto> JDate (now e), ''lastSubmissionDate'' \<mapsto> JNull,
       ''longestStreak'' \<mapsto> JNum 0, ''currentStreak'' \<mapsto> JNum 0,
       ''totalPoints'' \<mapsto> JNum 100, ''rankDistribution'' \<mapsto> JObj [],
       ''difficultyBreakdown'' \<mapsto> JObj [], ''languagesPracticed'' \<mapsto> JObj [],
       ''bestRank'' \<mapsto> JNull, ''averageScore'' \<mapsto> JStr ''100.00'',
       ''totalSubmissions'' \<mapsto> JNum 1, ''totalChallenges'' \<mapsto> JNum 1,
       ''userId'' \<mapsto> JStr (toLowerCase userId))"

text \<open>The stores after user b's first and second submission, and after one by user a.\<close>

definition practice_b :: db where
  "practice_b = snd (submit_challenge clock practice challenge_1 (submission_request user_b))"

definition practice_b2 :: db where
  "practice_b2 = snd (submit_challenge clock2 practice_b challenge_1 (submission_request user_b))"

definition practice_a :: db where
  "practice_a = snd (submit_challenge clock practice challenge_1 (submission_request user_a))"

text \<open>
  A store in which user a's stats row has no submission count: \<open>totalSubmissions\<close> is
  a nullable column, here NULL. And that store after a submission by user a.
\<close>

definition stats_uncounted :: row where
  "stats_uncounted = (stats_row user_a 3 300)(''totalSubmissions'' \<mapsto> JNull)"

definition uncounted :: db where
  "uncounted = (\<lambda>t. [])(''coding_challenges'' := [easy_python],
                           ''user_practice_stats'' := [stats_uncounted])"

definition uncounted_a :: db where
  "uncounted_a = snd (submit_challenge clock uncounted challenge_1 (submission_request user_a))"

text \<open>The object that the stats handler answers for a user without a stats row.\<close>

definition zero_stats :: "string \<Rightarrow> obj" where
  "zero_stats userId =
     Map.empty(''userId'' \<mapsto> JStr userId, ''totalChallenges'' \<mapsto> JNum 0,
       ''totalSubmissions'' \<mapsto> JNum 0, ''averageScore'' \<mapsto> JStr ''0.00'',
       ''totalPoints'' \<mapsto> JNum 0, ''currentStreak'' \<mapsto> JNum 0,
       ''longestStreak'' \<mapsto> JNum 0)"

section \<open>Facts about the tables and the store\<close>

lemmas column_defs = col_def notNull_def unique_def primaryKey_def
  defaultTo_def defaultNow_def defaultRandom_def references_def

lemma tname_simps:
  "tname codeSnippets = ''code_snippets''"
  "tname snippetMessages = ''snippet_messages''"
  "tname codingChallenges = ''coding_challenges''"
  "tname challengeSubmissions = ''challenge_submissions''"
  "tname userPracticeStats = ''user_practice_stats''"
  by (simp_all add: codeSnippets_def snippetMessages_def codingChallenges_def
        challengeSubmissions_def userPracticeStats_def)

lemma column_type_simps:
  "column_type codeSnippets ''shareToken'' = Some Text_t"
  "column_type snippetMessages ''snippetId'' = Some Uuid"
  "column_type codingChallenges ''difficulty'' = Some Text_t"
  "column_type codingChallenges ''language'' = Some Text_t"
  "column_type userPracticeStats ''userId'' = Some Uuid"
  by (simp_all add: column_type_def codeSnippets_def snippetMessages_def codingChallenges_def
        userPracticeStats_def column_defs)

subsection \<open>Selecting\<close>

lemma select_shareToken:
  "select_from d codeSnippets (Some (Eq ''shareToken'' tok))
     = Inr (filter (\<lambda>r. r ''shareToken'' = Some (JStr tok)) (d ''code_snippets''))"
  by (simp add: select_from_def column_type_simps tname_simps cong: filter_cong)

lemma select_snippetId:
  "is_uuid sid \<Longrightarrow>
   select_from d snippetMessages (Some (Eq ''snippetId'' sid))
     = Inr (filter (\<lambda>r. r ''snippetId'' = Some (JStr (toLowerCase sid))) (d ''snippet_messages''))"
  by (simp add: select_from_def column_type_simps tname_simps cong: filter_cong)

lemma select_userId:
  "is_uuid uid \<Longrightarrow>
   select_from d userPracticeStats (Some (Eq ''userId'' uid))
     = Inr (filter (\<lambda>r. r ''userId'' = Some (JStr (toLowerCase uid))) (d ''user_practice_stats''))"
  by (simp add: select_from_def column_type_simps tname_simps cong: filter_cong)

lemma select_challenges:
  "select_from d codingChallenges
     (if length (push_if ''language'' lang (push_if ''difficulty'' dif [])) > 0
      then Some (And (push_if ''language'' lang (push_if ''difficulty'' dif []))) else None)
   = Inr (filter (\<lambda>r. asked dif (r ''difficulty'') \<and> asked lang (r ''language''))
            (d ''coding_challenges''))"
proof (cases dif; cases lang)
  fix a b assume "dif = Some a" "lang = Some b"
  then show ?thesis
    by (cases "a = []"; cases "b = []")
       (simp_all add: push_if_def select_from_def asked_def column_type_simps tname_simps
          cong: filter_cong)
next
  fix a assume "dif = Some a" "lang = None"
  then show ?thesis
    by (cases "a = []")
       (simp_all add: push_if_def select_from_def asked_def column_type_simps tname_simps
          cong: filter_cong)
next
  fix b assume "dif = None" "lang = Some b"
  then show ?thesis
    by (cases "b = []")
       (simp_all add: push_if_def select_from_def asked_def column_type_simps tname_simps
          cong: filter_cong)
next
  assume "dif = None" "lang = None"
  then show ?thesis
    by (simp add: push_if_def select_from_def asked_def tname_simps)
qed

subsection \<open>Statements over every row\<close>

lemma map_result_Inr:
  "map_result f xs = Inr ys \<Longrightarrow>
     length ys = length xs \<and> (\<forall>i < length xs. f (xs ! i) = Inr (ys ! i))"
proof (induction xs arbitrary: ys)
  case Nil
  then show ?case by simp
next
  case (Cons x xs)
  from Cons.prems obtain y ys' where y: "f x = Inr y" and ys': "map_result f xs = Inr ys'"
    and ys: "ys = y # ys'"
    by (auto split: sum.splits)
  from Cons.IH [OF ys'] y ys show ?case
    by (auto simp: nth_Cons split: nat.splits)
qed

lemma map_result_id:
  "(\<And>x. x \<in> set xs \<Longrightarrow> f x = Inr x) \<Longrightarrow> map_result f xs = Inr xs"
  by (induction xs) auto

subsection \<open>Validating and inserting\<close>

text \<open>A key that the schema does not have plays no part in parsing.\<close>

lemma parse_ignores:
  assumes "k \<notin> set (map zkey sch)"
  shows "parse sch (x(k := v)) = parse sch x"
proof -
  have "list_all (\<lambda>f. field_ok f ((x(k := v)) (zkey f))) sch
          = list_all (\<lambda>f. field_ok f (x (zkey f))) sch"
    using assms by (induction sch) auto
  moreover have "(\<lambda>k'. if k' \<in> set (map zkey sch) then (x(k := v)) k' else None)
          = (\<lambda>k'. if k' \<in> set (map zkey sch) then x k' else None)"
    using assms by (auto simp: fun_eq_iff)
  ultimately show ?thesis
    by (simp add: parse_def)
qed

lemma omit_keys: "k \<in> set ks \<Longrightarrow> k \<notin> set (map zkey (omit ks sch))"
  by (auto simp: omit_def)

lemma parse_ok:
  "list_all (\<lambda>f. field_ok f (x (zkey f))) sch \<Longrightarrow>
     parse sch x = Inr (\<lambda>k. if k \<in> set (map zkey sch) then x k else None)"
  by (simp add: parse_def)

lemma parse_Inr:
  assumes "parse sch x = Inr data"
  shows "data = (\<lambda>k. if k \<in> set (map zkey sch) then x k else None)"
    and "\<forall>f \<in> set sch. field_ok f (x (zkey f))"
  using assms by (auto simp: parse_def list_all_iff split: if_splits)

text \<open>
  A value that the validator derived from a column accepts is one the store takes for
  that column; an integer must also fit the column's 32 bits.
\<close>

lemma cell_of_field_ok:
  assumes "field_ok \<lparr>zkey = cname c, ztype = ctype c, nullable = \<not> not_null c,
                      optional = (\<not> not_null c \<or> dflt_of c \<noteq> NoDefault)\<rparr> v"
    and "ctype c \<noteq> Integer"
  shows "\<exists>x. cell e c v = Inr x"
proof (cases v)
  case None
  with assms show ?thesis
    by (cases "dflt_of c") (auto simp: field_ok_def cell_def default_value_def)
next
  case (Some x)
  show ?thesis
  proof (cases x)
    case JNull
    with Some assms show ?thesis
      by (cases "ctype c") (auto simp: field_ok_def cell_def)
  qed (use Some assms in \<open>cases "ctype c"; auto simp: field_ok_def cell_def\<close>)+
qed

lemma build_row_total:
  "\<forall>c \<in> set cs. \<exists>x. cell e c (vals (cname c)) = Inr x \<Longrightarrow> \<exists>r. build_row e cs vals = Inr r"
  by (induction cs) auto

lemma build_row_cell:
  "build_row e cs vals = Inr r \<Longrightarrow> distinct (map cname cs) \<Longrightarrow> c \<in> set cs \<Longrightarrow>
     cell e c (vals (cname c)) = Inr (the (r (cname c)))
     \<and> r (cname c) \<noteq> None"
proof (induction cs arbitrary: r)
  case Nil
  then show ?case by simp
next
  case (Cons a cs)
  from Cons.prems(1) obtain v r' where v: "cell e a (vals (cname a)) = Inr v"
    and r': "build_row e cs vals = Inr r'" and r: "r = r'(cname a \<mapsto> v)"
    by (auto split: sum.splits)
  show ?case
  proof (cases "c = a")
    case True
    with v r show ?thesis by simp
  next
    case False
    with Cons.prems have c: "c \<in> set cs" and dist: "distinct (map cname cs)"
      and "cname a \<notin> cname ` set cs"
      by auto
    have "cname c \<noteq> cname a"
    proof
      assume "cname c = cname a"
      with c have "cname a \<in> cname ` set cs" by (metis imageI)
      with \<open>cname a \<notin> cname ` set cs\<close> show False by simp
    qed
    with Cons.IH [OF r' dist c] r show ?thesis by simp
  qed
qed

lemma insert_values_other:
  "insert_values e d t vals = Inr (r, d1) \<Longrightarrow> t' \<noteq> tname t \<Longrightarrow> d1 t' = d t'"
  by (auto simp: insert_values_def split: sum.splits if_splits)

subsection \<open>Inserting or updating on conflict\<close>

lemma upsert_inserts:
  assumes "insert_onConflictDoUpdate e d t vals target upd = Inr d'"
    and "build_row e (columns t) vals = Inr new"
    and "\<forall>r \<in> set (d (tname t)). r target \<noteq> new target"
  shows "d' = d(tname t := d (tname t) @ [new])"
  using assms
  by (auto simp: insert_onConflictDoUpdate_def list_ex_iff split: if_splits)

lemma upsert_updates:
  assumes "insert_onConflictDoUpdate e d t vals target upd = Inr d'"
    and "build_row e (columns t) vals = Inr new"
    and "\<exists>r \<in> set (d (tname t)). r target = new target"
  shows "length (d' (tname t)) = length (d (tname t))"
    and "\<And>i. i < length (d (tname t)) \<Longrightarrow> (d (tname t) ! i) target = new target \<Longrightarrow>
            upd (d (tname t) ! i) = Inr (d' (tname t) ! i)"
    and "\<And>i. i < length (d (tname t)) \<Longrightarrow> (d (tname t) ! i) target \<noteq> new target \<Longrightarrow>
            d' (tname t) ! i = d (tname t) ! i"
    and "\<And>t'. t' \<noteq> tname t \<Longrightarrow> d' t' = d t'"
proof -
  let ?f = "\<lambda>r'. if r' target = new target then upd r' else Inr r'"
  from assms obtain rows where rows: "map_result ?f (d (tname t)) = Inr rows"
    and d': "d' = d(tname t := rows)"
    by (auto simp: insert_onConflictDoUpdate_def list_ex_iff split: sum.splits)
  note each = map_result_Inr [OF rows]
  from each d' show "length (d' (tname t)) = length (d (tname t))" by simp
  from d' show "d' t' = d t'" if "t' \<noteq> tname t" for t' using that by simp
  show "upd (d (tname t) ! i) = Inr (d' (tname t) ! i)"
    if "i < length (d (tname t))" and "(d (tname t) ! i) target = new target" for i
  proof -
    from each that(1) have "?f (d (tname t) ! i) = Inr (rows ! i)" by blast
    with that(2) d' show ?thesis by simp
  qed
  show "d' (tname t) ! i = d (tname t) ! i"
    if "i < length (d (tname t))" and "(d (tname t) ! i) target \<noteq> new target" for i
  proof -
    from each that(1) have "?f (d (tname t) ! i) = Inr (rows ! i)" by blast
    with that(2) d' show ?thesis by simp
  qed
qed

subsection \<open>Updating\<close>

text \<open>A \<open>set\<close> changes no column that it does not name.\<close>

lemma apply_set_frame:
  "apply_set e cs s r = Inr r' \<Longrightarrow> s k = None \<Longrightarrow> r' k = r k"
proof (induction cs arbitrary: r)
  case Nil
  then show ?case by simp
next
  case (Cons c cs)
  show ?case
  proof (cases "s (cname c)")
    case None
    with Cons show ?thesis by simp
  next
    case (Some v)
    with Cons.prems obtain x where x: "bind_value e (ctype c) (not_null c) v = Inr x"
      and rest: "apply_set e cs s (r(cname c \<mapsto> x)) = Inr r'"
      by (auto split: sum.splits)
    from Some Cons.prems(2) have "k \<noteq> cname c" by auto
    with Cons.IH [OF rest Cons.prems(2)] show ?thesis by simp
  qed
qed

lemma holds_shareToken:
  "holds codeSnippets (Eq ''shareToken'' tok) r \<longleftrightarrow> r ''shareToken'' = Some (JStr tok)"
  by (simp add: column_type_simps)

lemma well_typed_shareToken: "well_typed codeSnippets (Eq ''shareToken'' tok)"
  by (simp add: column_type_simps)

subsection \<open>Ordering and limiting\<close>

lemma precedes_iff: "precedes k a b \<longleftrightarrow> desc_rank k a \<le> desc_rank k b"
  by (auto simp: precedes_def desc_rank_def split: option.splits jsval.splits)

lemma sorted_orderBy_desc: "sorted_wrt (precedes k) (orderBy_desc k rows)"
proof -
  have "sorted (map (desc_rank k) (orderBy_desc k rows))"
    by (simp add: orderBy_desc_def)
  then show ?thesis
    by (simp add: sorted_wrt_map precedes_iff [abs_def])
qed

lemma mset_orderBy_desc: "mset (orderBy_desc k rows) = mset rows"
  by (simp add: orderBy_desc_def)

lemma set_orderBy_desc: "set (orderBy_desc k rows) = set rows"
  by (simp add: orderBy_desc_def)

text \<open>What \<open>LIMIT n\<close> keeps of an ordered list stands before everything it leaves out.\<close>

lemma limit_split:
  assumes "sorted_wrt P rows"
  shows "\<forall>x \<in> set (take n rows). \<forall>y \<in> set (drop n rows). P x y"
proof -
  have "sorted_wrt P (take n rows @ drop n rows)"
    using assms by simp
  then show ?thesis
    unfolding sorted_wrt_append by blast
qed

subsection \<open>The sample data\<close>

lemma is_uuid_snippet_a: "is_uuid snippet_a"
  by (simp add: is_uuid_def snippet_a_def hex_digit_def)

lemma lower_snippet_a: "toLowerCase snippet_a = snippet_a"
  by (simp add: toLowerCase_def snippet_a_def lower_char_def upper_letters_def lower_letters_def)

lemma is_uuid_user_a: "is_uuid user_a"
  by (simp add: is_uuid_def user_a_def hex_digit_def)

lemma lower_user_a: "toLowerCase user_a = user_a"
  by (simp add: toLowerCase_def user_a_def lower_char_def upper_letters_def lower_letters_def)

lemma is_uuid_user_b: "is_uuid user_b"
  by (simp add: is_uuid_def user_b_def hex_digit_def)

lemma lower_user_b: "toLowerCase user_b = user_b"
  by (simp add: toLowerCase_def user_b_def lower_char_def upper_letters_def lower_letters_def)

lemma user_a_neq_user_b: "user_a \<noteq> user_b"
  by (simp add: user_a_def user_b_def)

lemma practice_stats: "practice ''user_practice_stats'' = [stats_a]"
  by (simp add: practice_def)

lemma stats_a_userId: "stats_a ''userId'' = Some (JStr user_a)"
  by (simp add: stats_a_def stats_row_def)

lemma snippets_rows: "snippets ''code_snippets'' = [fizzbuzz]"
  by (simp add: snippets_def)

lemma fizzbuzz_fields:
  "fizzbuzz ''shareToken'' = Some (JStr ''V1StGXR8_Z5j'')"
  "fizzbuzz ''isPublic'' = Some (JBool True)"
  "fizzbuzz ''id'' = Some (JStr snippet_a)"
  by (simp_all add: fizzbuzz_def snippet_def)


section \<open>POST /api/coding-challenges/:challengeId/submit\<close>

lemma submission_userId_field:
  "\<lparr>zkey = ''userId'', ztype = Uuid, nullable = True, optional = True\<rparr>
     \<in> set insertChallengeSubmissionSchema"
  "''userId'' \<in> set (map zkey insertChallengeSubmissionSchema)"
  by (simp_all add: insertChallengeSubmissionSchema_def omit_def createInsertSchema_def
        challengeSubmissions_def column_defs)

text \<open>The row that the upsert would insert for a known user.\<close>

lemma build_stats:
  assumes "is_uuid u"
  shows "build_row e (columns userPracticeStats)
           (Map.empty(''userId'' := Some (JStr u), ''totalChallenges'' \<mapsto> JNum 1,
              ''totalSubmissions'' \<mapsto> JNum 1, ''averageScore'' \<mapsto> JStr ''100.00'',
              ''totalPoints'' \<mapsto> JNum 100))
         = Inr (Map.empty(''updatedAt'' \<mapsto> JDate (now e), ''lastSubmissionDate'' \<mapsto> JNull,
              ''longestStreak'' \<mapsto> JNum 0, ''currentStreak'' \<mapsto> JNum 0,
              ''totalPoints'' \<mapsto> JNum 100, ''rankDistribution'' \<mapsto> JObj [],
              ''difficultyBreakdown'' \<mapsto> JObj [], ''languagesPracticed'' \<mapsto> JObj [],
              ''bestRank'' \<mapsto> JNull, ''averageScore'' \<mapsto> JStr ''100.00'',
              ''totalSubmissions'' \<mapsto> JNum 1, ''totalChallenges'' \<mapsto> JNum 1,
              ''userId'' \<mapsto> JStr (toLowerCase u)))"
  using assms
  by (simp add: userPracticeStats_def column_defs cell_def default_value_def int4_def)

text \<open>
  What a submission that is answered 200 has done, for a payload with a \<open>userId\<close>: the
  payload passed the validator, so the \<open>userId\<close> is a uuid; the submission was stored,
  which leaves the stats table alone; then the upsert on the stats table succeeded.
\<close>

lemma submit_known_user:
  assumes "submit_challenge e d cid body = (Json submission, d')"
    and "body ''userId'' = Some (JStr u)"
  shows "is_uuid u"
    and "\<exists>d1. d1 ''user_practice_stats'' = d ''user_practice_stats''
          \<and> insert_onConflictDoUpdate e d1 userPracticeStats
                (Map.empty(''userId'' := Some (JStr u), ''totalChallenges'' \<mapsto> JNum 1,
                   ''totalSubmissions'' \<mapsto> JNum 1, ''averageScore'' \<mapsto> JStr ''100.00'',
                   ''totalPoints'' \<mapsto> JNum 100))
                ''userId''
                (\<lambda>stored.
                    case sql_add (stored ''totalSubmissions'') 1 of
                      Inl err \<Rightarrow> Inl err
                    | Inr totalSubmissions \<Rightarrow>
                        (case sql_add (stored ''totalPoints'') 100 of
                           Inl err \<Rightarrow> Inl err
                         | Inr totalPoints \<Rightarrow>
                             Inr (stored(''totalSubmissions'' \<mapsto> totalSubmissions,
                                         ''totalPoints'' \<mapsto> totalPoints,
                                         ''updatedAt'' \<mapsto> JDate (now e)))))
              = Inr d'"
proof -
  let ?x = "body(''challengeId'' \<mapsto> JStr cid)"
  from assms(1) obtain data where p: "parse insertChallengeSubmissionSchema ?x = Inr data"
    by (cases "parse insertChallengeSubmissionSchema ?x") (simp_all add: submit_challenge_def)
  note q = parse_Inr [OF p]
  from q(1) assms(2) submission_userId_field(2) have uid: "data ''userId'' = Some (JStr u)"
    by simp
  from q(2) submission_userId_field(1)
  have "field_ok \<lparr>zkey = ''userId'', ztype = Uuid, nullable = True, optional = True\<rparr> (?x ''userId'')"
    by force
  with assms(2) show u: "is_uuid u"
    by (simp add: field_ok_def)
  then have "u \<noteq> []"
    by (auto simp: is_uuid_def)
  with uid have known: "truthy (data ''userId'')"
    by simp
  let ?vals = "data(''score'' \<mapsto> JNum 100, ''rank'' \<mapsto> JStr ''A+'',
                    ''testResults'' \<mapsto> JArr [JObj [(''passed'', JBool True), (''input'', JStr ''test''),
                                         (''expected'', JStr ''test''), (''actual'', JStr ''test'')]],
                    ''feedback'' \<mapsto> JStr ''Great work!'',
                    ''strengths'' \<mapsto> JArr [JStr ''Clean code'', JStr ''Efficient solution''],
                    ''improvements'' \<mapsto> JArr [])"
  from assms(1) p obtain s1 d1 where
    ins: "insert_values e d challengeSubmissions ?vals = Inr (s1, d1)"
    by (cases "insert_values e d challengeSubmissions ?vals")
       (auto simp: submit_challenge_def Let_def)
  from insert_values_other [OF ins, of "''user_practice_stats''"]
  have same: "d1 ''user_practice_stats'' = d ''user_practice_stats''"
    by (simp add: tname_simps)
  from assms(1) p ins known uid
  have "insert_onConflictDoUpdate e d1 userPracticeStats
                (Map.empty(''userId'' := Some (JStr u), ''totalChallenges'' \<mapsto> JNum 1,
                   ''totalSubmissions'' \<mapsto> JNum 1, ''averageScore'' \<mapsto> JStr ''100.00'',
                   ''totalPoints'' \<mapsto> JNum 100))
                ''userId''
                (\<lambda>stored.
                    case sql_add (stored ''totalSubmissions'') 1 of
                      Inl err \<Rightarrow> Inl err
                    | Inr totalSubmissions \<Rightarrow>
                        (case sql_add (stored ''totalPoints'') 100 of
                           Inl err \<Rightarrow> Inl err
                         | Inr totalPoints \<Rightarrow>
                             Inr (stored(''totalSubmissions'' \<mapsto> totalSubmissions,
                                         ''totalPoints'' \<mapsto> totalPoints,
                                         ''updatedAt'' \<mapsto> JDate (now e)))))
              = Inr d'"
    by (simp add: submit_challenge_def Let_def split: sum.splits)
  with same show "\<exists>d1. d1 ''user_practice_stats'' = d ''user_practice_stats''
          \<and> insert_onConflictDoUpdate e d1 userPracticeStats
                (Map.empty(''userId'' := Some (JStr u), ''totalChallenges'' \<mapsto> JNum 1,
                   ''totalSubmissions'' \<mapsto> JNum 1, ''averageScore'' \<mapsto> JStr ''100.00'',
                   ''totalPoints'' \<mapsto> JNum 100))
                ''userId''
                (\<lambda>stored.
                    case sql_add (stored ''totalSubmissions'') 1 of
                      Inl err \<Rightarrow> Inl err
                    | Inr totalSubmissions \<Rightarrow>
                        (case sql_add (stored ''totalPoints'') 100 of
                           Inl err \<Rightarrow> Inl err
                         | Inr totalPoints \<Rightarrow>
                             Inr (stored(''totalSubmissions'' \<mapsto> totalSubmissions,
                                         ''totalPoints'' \<mapsto> totalPoints,
                                         ''updatedAt'' \<mapsto> JDate (now e)))))
              = Inr d'"
    by blast
qed

text \<open>First submission of a user: the upsert inserts.\<close>

lemma submit_inserts_stats:
  assumes "submit_challenge e d cid body = (Json submission, d')"
    and "body ''userId'' = Some (JStr u)"
    and "\<forall>r \<in> set (d ''user_practice_stats''). r ''userId'' \<noteq> Some (JStr (toLowerCase u))"
  shows "d' ''user_practice_stats'' = d ''user_practice_stats'' @
           [Map.empty(''updatedAt'' \<mapsto> JDate (now e), ''lastSubmissionDate'' \<mapsto> JNull,
              ''longestStreak'' \<mapsto> JNum 0, ''currentStreak'' \<mapsto> JNum 0,
              ''totalPoints'' \<mapsto> JNum 100, ''rankDistribution'' \<mapsto> JObj [],
              ''difficultyBreakdown'' \<mapsto> JObj [], ''languagesPracticed'' \<mapsto> JObj [],
              ''bestRank'' \<mapsto> JNull, ''averageScore'' \<mapsto> JStr ''100.00'',
              ''totalSubmissions'' \<mapsto> JNum 1, ''totalChallenges'' \<mapsto> JNum 1,
              ''userId'' \<mapsto> JStr (toLowerCase u))]"
proof -
  define vals where "vals = Map.empty(''userId'' := Some (JStr u), ''totalChallenges'' \<mapsto> JNum 1,
                   ''totalSubmissions'' \<mapsto> JNum 1, ''averageScore'' \<mapsto> JStr ''100.00'',
                   ''totalPoints'' \<mapsto> JNum 100)"
  define upd where "upd = (\<lambda>stored :: row.
                    case sql_add (stored ''totalSubmissions'') 1 of
                      Inl err \<Rightarrow> Inl err
                    | Inr totalSubmissions \<Rightarrow>
                        (case sql_add (stored ''totalPoints'') 100 of
                           Inl err \<Rightarrow> Inl err
                         | Inr totalPoints \<Rightarrow>
                             Inr (stored(''totalSubmissions'' \<mapsto> totalSubmissions,
                                         ''totalPoints'' \<mapsto> totalPoints,
                                         ''updatedAt'' \<mapsto> JDate (now e)))))"
  define new where "new = Map.empty(''updatedAt'' \<mapsto> JDate (now e), ''lastSubmissionDate'' \<mapsto> JNull,
              ''longestStreak'' \<mapsto> JNum 0, ''currentStreak'' \<mapsto> JNum 0,
              ''totalPoints'' \<mapsto> JNum 100, ''rankDistribution'' \<mapsto> JObj [],
              ''difficultyBreakdown'' \<mapsto> JObj [], ''languagesPracticed'' \<mapsto> JObj [],
              ''bestRank'' \<mapsto> JNull, ''averageScore'' \<mapsto> JStr ''100.00'',
              ''totalSubmissions'' \<mapsto> JNum 1, ''totalChallenges'' \<mapsto> JNum 1,
              ''userId'' \<mapsto> JStr (toLowerCase u))"
  note known = submit_known_user [OF assms(1,2), folded vals_def upd_def]
  from known(2) obtain d1 where
    same: "d1 ''user_practice_stats'' = d ''user_practice_stats''"
    and up: "insert_onConflictDoUpdate e d1 userPracticeStats vals ''userId'' upd = Inr d'"
    by (elim exE conjE)
  have built: "build_row e (columns userPracticeStats) vals = Inr new"
    unfolding vals_def new_def by (rule build_stats [OF known(1)])
  have new_user: "new ''userId'' = Some (JStr (toLowerCase u))"
    by (simp add: new_def)
  from assms(3) have fresh: "\<forall>r \<in> set (d1 (tname userPracticeStats)). r ''userId'' \<noteq> new ''userId''"
    by (simp only: tname_simps same new_user)
  have "d' = d1(tname userPracticeStats := d1 (tname userPracticeStats) @ [new])"
    by (rule upsert_inserts [OF up built fresh])
  then have "d' ''user_practice_stats'' = d1 ''user_practice_stats'' @ [new]"
    by (simp add: tname_simps)
  then show ?thesis
    unfolding same new_def .
qed

text \<open>Later submission of a user: the upsert rewrites the stored rows of that user.\<close>

lemma submit_updates_stats:
  assumes "submit_challenge e d cid body = (Json submission, d')"
    and "body ''userId'' = Some (JStr u)"
    and "\<exists>r \<in> set (d ''user_practice_stats''). r ''userId'' = Some (JStr (toLowerCase u))"
  shows "length (d' ''user_practice_stats'') = length (d ''user_practice_stats'')"
    and "\<And>i. i < length (d ''user_practice_stats'') \<Longrightarrow>
            (d ''user_practice_stats'' ! i) ''userId'' = Some (JStr (toLowerCase u)) \<Longrightarrow>
            \<exists>subs pts.
               sql_add ((d ''user_practice_stats'' ! i) ''totalSubmissions'') 1 = Inr subs
             \<and> sql_add ((d ''user_practice_stats'' ! i) ''totalPoints'') 100 = Inr pts
             \<and> d' ''user_practice_stats'' ! i
                 = (d ''user_practice_stats'' ! i)(''totalSubmissions'' \<mapsto> subs,
                      ''totalPoints'' \<mapsto> pts, ''updatedAt'' \<mapsto> JDate (now e))"
    and "\<And>i. i < length (d ''user_practice_stats'') \<Longrightarrow>
            (d ''user_practice_stats'' ! i) ''userId'' \<noteq> Some (JStr (toLowerCase u)) \<Longrightarrow>
            d' ''user_practice_stats'' ! i = d ''user_practice_stats'' ! i"
proof -
  define vals where "vals = Map.empty(''userId'' := Some (JStr u), ''totalChallenges'' \<mapsto> JNum 1,
                   ''totalSubmissions'' \<mapsto> JNum 1, ''averageScore'' \<mapsto> JStr ''100.00'',
                   ''totalPoints'' \<mapsto> JNum 100)"
  define upd where "upd = (\<lambda>stored :: row.
                    case sql_add (stored ''totalSubmissions'') 1 of
                      Inl err \<Rightarrow> Inl err
                    | Inr totalSubmissions \<Rightarrow>
                        (case sql_add (stored ''totalPoints'') 100 of
                           Inl err \<Rightarrow> Inl err
                         | Inr totalPoints \<Rightarrow>
                             Inr (stored(''totalSubmissions'' \<mapsto> totalSubmissions,
                                         ''totalPoints'' \<mapsto> totalPoints,
                                         ''updatedAt'' \<mapsto> JDate (now e)))))"
  define new where "new = Map.empty(''updatedAt'' \<mapsto> JDate (now e), ''lastSubmissionDate'' \<mapsto> JNull,
              ''longestStreak'' \<mapsto> JNum 0, ''currentStreak'' \<mapsto> JNum 0,
              ''totalPoints'' \<mapsto> JNum 100, ''rankDistribution'' \<mapsto> JObj [],
              ''difficultyBreakdown'' \<mapsto> JObj [], ''languagesPracticed'' \<mapsto> JObj [],
              ''bestRank'' \<mapsto> JNull, ''averageScore'' \<mapsto> JStr ''100.00'',
              ''totalSubmissions'' \<mapsto> JNum 1, ''totalChallenges'' \<mapsto> JNum 1,
              ''userId'' \<mapsto> JStr (toLowerCase u))"
  note known = submit_known_user [OF assms(1,2), folded vals_def upd_def]
  from known(2) obtain d1 where
    same: "d1 ''user_practice_stats'' = d ''user_practice_stats''"
    and up: "insert_onConflictDoUpdate e d1 userPracticeStats vals ''userId'' upd = Inr d'"
    by (elim exE conjE)
  have built: "build_row e (columns userPracticeStats) vals = Inr new"
    unfolding vals_def new_def by (rule build_stats [OF known(1)])
  have new_user: "new ''userId'' = Some (JStr (toLowerCase u))"
    by (simp add: new_def)
  from assms(3) have hit: "\<exists>r \<in> set (d1 (tname userPracticeStats)). r ''userId'' = new ''userId''"
    by (simp only: tname_simps same new_user)
  note upd = upsert_updates [OF up built hit, unfolded tname_simps same new_user]
  show "length (d' ''user_practice_stats'') = length (d ''user_practice_stats'')"
    by (rule upd(1))
  show "\<exists>subs pts.
               sql_add ((d ''user_practice_stats'' ! i) ''totalSubmissions'') 1 = Inr subs
             \<and> sql_add ((d ''user_practice_stats'' ! i) ''totalPoints'') 100 = Inr pts
             \<and> d' ''user_practice_stats'' ! i
                 = (d ''user_practice_stats'' ! i)(''totalSubmissions'' \<mapsto> subs,
                      ''totalPoints'' \<mapsto> pts, ''updatedAt'' \<mapsto> JDate (now e))"
    if "i < length (d ''user_practice_stats'')"
      and "(d ''user_practice_stats'' ! i) ''userId'' = Some (JStr (toLowerCase u))" for i
  proof -
    from upd(2) [OF that] have *: "upd (d ''user_practice_stats'' ! i) = Inr (d' ''user_practice_stats'' ! i)" .
    obtain subs where subs: "sql_add ((d ''user_practice_stats'' ! i) ''totalSubmissions'') 1 = Inr subs"
      using * by (cases "sql_add ((d ''user_practice_stats'' ! i) ''totalSubmissions'') 1")
                 (simp_all add: upd_def)
    obtain pts where pts: "sql_add ((d ''user_practice_stats'' ! i) ''totalPoints'') 100 = Inr pts"
      using * subs by (cases "sql_add ((d ''user_practice_stats'' ! i) ''totalPoints'') 100")
                 (simp_all add: upd_def)
    from * subs pts have "d' ''user_practice_stats'' ! i
                 = (d ''user_practice_stats'' ! i)(''totalSubmissions'' \<mapsto> subs,
                      ''totalPoints'' \<mapsto> pts, ''updatedAt'' \<mapsto> JDate (now e))"
      by (simp add: upd_def)
    with subs pts show ?thesis by (intro exI conjI)
  qed
  show "d' ''user_practice_stats'' ! i = d ''user_practice_stats'' ! i"
    if "i < length (d ''user_practice_stats'')"
      and "(d ''user_practice_stats'' ! i) ''userId'' \<noteq> Some (JStr (toLowerCase u))" for i
    by (rule upd(3) [OF that])
qed

subsection \<open>A request that is accepted\<close>

lemma is_uuid_challenge_1: "is_uuid challenge_1"
  by (simp add: is_uuid_def challenge_1_def hex_digit_def)

lemma lower_challenge_1: "toLowerCase challenge_1 = challenge_1"
  by (simp add: toLowerCase_def challenge_1_def lower_char_def upper_letters_def lower_letters_def)

lemma parse_submission:
  assumes "is_uuid u" and "is_uuid cid"
  shows "parse insertChallengeSubmissionSchema ((submission_request u)(''challengeId'' \<mapsto> JStr cid))
     = Inr ((submission_request u)(''challengeId'' \<mapsto> JStr cid))"
  using assms
  by (auto simp: parse_def insertChallengeSubmissionSchema_def omit_def createInsertSchema_def
        challengeSubmissions_def column_defs field_ok_def submission_request_def fun_eq_iff)

lemma build_submission:
  assumes "is_uuid u" and "is_uuid cid"
  shows "build_row e (columns challengeSubmissions)
           ((submission_request u)(''challengeId'' \<mapsto> JStr cid,
              ''score'' \<mapsto> JNum 100, ''rank'' \<mapsto> JStr ''A+'',
              ''testResults'' \<mapsto> JArr [JObj [(''passed'', JBool True), (''input'', JStr ''test''),
                                       (''expected'', JStr ''test''), (''actual'', JStr ''test'')]],
              ''feedback'' \<mapsto> JStr ''Great work!'',
              ''strengths'' \<mapsto> JArr [JStr ''Clean code'', JStr ''Efficient solution''],
              ''improvements'' \<mapsto> JArr []))
         = Inr (stored_submission e cid u)"
  using assms
  by (simp add: challengeSubmissions_def column_defs cell_def default_value_def int4_def
        submission_request_def stored_submission_def)

lemma stored_submission_fields:
  "stored_submission e cid u ''id'' = Some (JStr (randomUUID e))"
  "stored_submission e cid u ''challengeId'' = Some (JStr (toLowerCase cid))"
  by (simp_all add: stored_submission_def)

lemma submission_constraints:
  assumes "r ''id'' = Some (JStr ident)" and "r ''challengeId'' = Some (JStr c)"
  shows "unique_ok (columns challengeSubmissions) rows r
           \<longleftrightarrow> (\<forall>r' \<in> set rows. r' ''id'' \<noteq> Some (JStr ident))"
    and "foreign_ok d (columns challengeSubmissions) r
           \<longleftrightarrow> (\<exists>r' \<in> set (d ''coding_challenges''). r' ''id'' = Some (JStr c))"
  using assms
  by (auto simp: unique_ok_def foreign_ok_def challengeSubmissions_def column_defs list_all_iff
        list_ex_iff)

lemma insert_submission:
  assumes "is_uuid u" and "is_uuid cid"
    and "\<exists>r \<in> set (d ''coding_challenges''). r ''id'' = Some (JStr (toLowerCase cid))"
    and "\<forall>r \<in> set (d ''challenge_submissions''). r ''id'' \<noteq> Some (JStr (randomUUID e))"
  shows "insert_values e d challengeSubmissions
           ((submission_request u)(''challengeId'' \<mapsto> JStr cid,
              ''score'' \<mapsto> JNum 100, ''rank'' \<mapsto> JStr ''A+'',
              ''testResults'' \<mapsto> JArr [JObj [(''passed'', JBool True), (''input'', JStr ''test''),
                                       (''expected'', JStr ''test''), (''actual'', JStr ''test'')]],
              ''feedback'' \<mapsto> JStr ''Great work!'',
              ''strengths'' \<mapsto> JArr [JStr ''Clean code'', JStr ''Efficient solution''],
              ''improvements'' \<mapsto> JArr []))
         = Inr (stored_submission e cid u,
                d(''challenge_submissions'' := d ''challenge_submissions'' @ [stored_submission e cid u]))"
  unfolding insert_values_def build_submission [OF assms(1,2)]
  using assms(3,4)
  by (simp add: submission_constraints [where r="stored_submission e cid u", OF stored_submission_fields [of e cid u]] tname_simps)

lemma submission_request_userId: "submission_request u ''userId'' = Some (JStr u)"
  by (simp add: submission_request_def)

lemma is_uuid_nonempty: "is_uuid u \<Longrightarrow> u \<noteq> []"
  by (auto simp: is_uuid_def)

lemma build_first_stats:
  assumes "is_uuid u"
  shows "build_row e (columns userPracticeStats)
           (Map.empty(''userId'' := Some (JStr u), ''totalChallenges'' \<mapsto> JNum 1,
              ''totalSubmissions'' \<mapsto> JNum 1, ''averageScore'' \<mapsto> JStr ''100.00'',
              ''totalPoints'' \<mapsto> JNum 100))
         = Inr (first_stats e u)"
  unfolding first_stats_def by (rule build_stats [OF assms])

lemma first_stats_fields:
  "first_stats e u ''userId'' = Some (JStr (toLowerCase u))"
  "first_stats e u ''totalSubmissions'' = Some (JNum 1)"
  "first_stats e u ''totalPoints'' = Some (JNum 100)"
  by (simp_all add: first_stats_def)

lemma stats_constraints:
  assumes "r ''userId'' = Some (JStr ident)"
  shows "unique_ok (columns userPracticeStats) rows r
           \<longleftrightarrow> (\<forall>r' \<in> set rows. r' ''userId'' \<noteq> Some (JStr ident))"
    and "foreign_ok d (columns userPracticeStats) r"
  using assms
  by (auto simp: unique_ok_def foreign_ok_def userPracticeStats_def column_defs list_all_iff)

text \<open>
  A submission request of the sample form is accepted when its ids are uuids, the
  challenge exists and the identifier drawn for the submission is not taken; the first
  one of a user stores the submission and the user's first stats row.
\<close>

lemma submit_request_first:
  assumes u: "is_uuid u" and cid: "is_uuid cid"
    and ch: "\<exists>r \<in> set (d ''coding_challenges''). r ''id'' = Some (JStr (toLowerCase cid))"
    and fresh: "\<forall>r \<in> set (d ''challenge_submissions''). r ''id'' \<noteq> Some (JStr (randomUUID e))"
    and none: "\<forall>r \<in> set (d ''user_practice_stats''). r ''userId'' \<noteq> Some (JStr (toLowerCase u))"
  shows "submit_challenge e d cid (submission_request u)
           = (Json (stored_submission e cid u),
              d(''challenge_submissions'' := d ''challenge_submissions'' @ [stored_submission e cid u],
                ''user_practice_stats'' := d ''user_practice_stats'' @ [first_stats e u]))"
proof -
  define d1 where "d1 = d(''challenge_submissions'' := d ''challenge_submissions'' @ [stored_submission e cid u])"
  have stats1: "d1 ''user_practice_stats'' = d ''user_practice_stats''"
    by (simp add: d1_def)
  from none have no_conflict: "\<not> list_ex (\<lambda>r'. r' ''userId'' = first_stats e u ''userId'') (d1 (tname userPracticeStats))"
    by (simp add: list_ex_iff tname_simps stats1 first_stats_fields)
  from none have uniq: "unique_ok (columns userPracticeStats) (d1 (tname userPracticeStats)) (first_stats e u)"
    by (simp add: stats_constraints(1) [where r="first_stats e u", OF first_stats_fields(1) [of e u]] tname_simps stats1)
  have upsert: "insert_onConflictDoUpdate e d1 userPracticeStats
           (Map.empty(''userId'' := Some (JStr u), ''totalChallenges'' \<mapsto> JNum 1,
              ''totalSubmissions'' \<mapsto> JNum 1, ''averageScore'' \<mapsto> JStr ''100.00'',
              ''totalPoints'' \<mapsto> JNum 100)) ''userId'' upd
         = Inr (d1(''user_practice_stats'' := d1 ''user_practice_stats'' @ [first_stats e u]))" for upd
    unfolding insert_onConflictDoUpdate_def build_first_stats [OF u]
    using no_conflict uniq
    by (simp add: stats_constraints(2) [where r="first_stats e u", OF first_stats_fields(1) [of e u]] tname_simps)
  show ?thesis
    unfolding submit_challenge_def Let_def parse_submission [OF u cid]
    using insert_submission [OF u cid ch fresh] is_uuid_nonempty [OF u]
    by (simp add: submission_request_userId upsert [unfolded d1_def])
qed

text \<open>A later one rewrites the user's stats rows, provided the sums stay in range.\<close>

lemma submit_request_again:
  assumes u: "is_uuid u" and cid: "is_uuid cid"
    and ch: "\<exists>r \<in> set (d ''coding_challenges''). r ''id'' = Some (JStr (toLowerCase cid))"
    and fresh: "\<forall>r \<in> set (d ''challenge_submissions''). r ''id'' \<noteq> Some (JStr (randomUUID e))"
    and hit: "\<exists>r \<in> set (d ''user_practice_stats''). r ''userId'' = Some (JStr (toLowerCase u))"
    and rows: "map_result
                 (\<lambda>stored. if stored ''userId'' = Some (JStr (toLowerCase u))
                    then (case sql_add (stored ''totalSubmissions'') 1 of
                            Inl err \<Rightarrow> Inl err
                          | Inr totalSubmissions \<Rightarrow>
                              (case sql_add (stored ''totalPoints'') 100 of
                                 Inl err \<Rightarrow> Inl err
                               | Inr totalPoints \<Rightarrow>
                                   Inr (stored(''totalSubmissions'' \<mapsto> totalSubmissions,
                                               ''totalPoints'' \<mapsto> totalPoints,
                                               ''updatedAt'' \<mapsto> JDate (now e)))))
                    else Inr stored)
                 (d ''user_practice_stats'') = Inr rows'"
  shows "submit_challenge e d cid (submission_request u)
           = (Json (stored_submission e cid u),
              d(''challenge_submissions'' := d ''challenge_submissions'' @ [stored_submission e cid u],
                ''user_practice_stats'' := rows'))"
proof -
  define d1 where "d1 = d(''challenge_submissions'' := d ''challenge_submissions'' @ [stored_submission e cid u])"
  have stats1: "d1 ''user_practice_stats'' = d ''user_practice_stats''"
    by (simp add: d1_def)
  from hit have conflict: "list_ex (\<lambda>r'. r' ''userId'' = first_stats e u ''userId'') (d1 (tname userPracticeStats))"
    by (simp add: list_ex_iff tname_simps stats1 first_stats_fields)
  have upsert: "insert_onConflictDoUpdate e d1 userPracticeStats
           (Map.empty(''userId'' := Some (JStr u), ''totalChallenges'' \<mapsto> JNum 1,
              ''totalSubmissions'' \<mapsto> JNum 1, ''averageScore'' \<mapsto> JStr ''100.00'',
              ''totalPoints'' \<mapsto> JNum 100)) ''userId''
           (\<lambda>stored.
               case sql_add (stored ''totalSubmissions'') 1 of
                 Inl err \<Rightarrow> Inl err
               | Inr totalSubmissions \<Rightarrow>
                   (case sql_add (stored ''totalPoints'') 100 of
                      Inl err \<Rightarrow> Inl err
                    | Inr totalPoints \<Rightarrow>
                        Inr (stored(''totalSubmissions'' \<mapsto> totalSubmissions,
                                    ''totalPoints'' \<mapsto> totalPoints,
                                    ''updatedAt'' \<mapsto> JDate (now e)))))
         = Inr (d1(''user_practice_stats'' := rows'))"
    unfolding insert_onConflictDoUpdate_def build_first_stats [OF u]
    using conflict rows
    by (simp add: tname_simps stats1 first_stats_fields)
  show ?thesis
    unfolding submit_challenge_def Let_def parse_submission [OF u cid]
    using insert_submission [OF u cid ch fresh] is_uuid_nonempty [OF u]
    by (simp add: submission_request_userId upsert [unfolded d1_def])
qed

subsection \<open>The sample submissions\<close>

lemma practice_tables:
  "practice ''coding_challenges'' = [easy_python]"
  "practice ''challenge_submissions'' = []"
  by (simp_all add: practice_def)

lemma easy_python_id: "easy_python ''id'' = Some (JStr challenge_1)"
  by (simp add: easy_python_def challenge_def challenge_1_def)

lemma stats_a_fields:
  "stats_a ''totalSubmissions'' = Some (JNum 3)"
  "stats_a ''totalPoints'' = Some (JNum 300)"
  "stats_a ''averageScore'' = Some (JStr ''100.00'')"
  "stats_a ''totalChallenges'' = Some (JNum 1)"
  by (simp_all add: stats_a_def stats_row_def)

lemma submit_b:
  "submit_challenge clock practice challenge_1 (submission_request user_b)
     = (Json (stored_submission clock challenge_1 user_b), practice_b)"
  and practice_b_tables:
  "practice_b ''coding_challenges'' = [easy_python]"
  "practice_b ''challenge_submissions'' = [stored_submission clock challenge_1 user_b]"
  "practice_b ''user_practice_stats'' = [stats_a, first_stats clock user_b]"
proof -
  have *: "submit_challenge clock practice challenge_1 (submission_request user_b)
     = (Json (stored_submission clock challenge_1 user_b),
        practice(''challenge_submissions'' := practice ''challenge_submissions''
                    @ [stored_submission clock challenge_1 user_b],
                 ''user_practice_stats'' := practice ''user_practice_stats''
                    @ [first_stats clock user_b]))"
    by (rule submit_request_first)
       (simp_all add: is_uuid_user_b is_uuid_challenge_1 lower_challenge_1 lower_user_b
          practice_tables practice_stats easy_python_id stats_a_userId user_a_neq_user_b)
  then have b: "practice_b = practice(''challenge_submissions'' := practice ''challenge_submissions''
                    @ [stored_submission clock challenge_1 user_b],
                 ''user_practice_stats'' := practice ''user_practice_stats''
                    @ [first_stats clock user_b])"
    by (simp add: practice_b_def)
  from * b show "submit_challenge clock practice challenge_1 (submission_request user_b)
     = (Json (stored_submission clock challenge_1 user_b), practice_b)"
    by simp
  show "practice_b ''coding_challenges'' = [easy_python]"
    "practice_b ''challenge_submissions'' = [stored_submission clock challenge_1 user_b]"
    "practice_b ''user_practice_stats'' = [stats_a, first_stats clock user_b]"
    unfolding b by (simp_all add: practice_tables practice_stats)
qed

lemma submit_b2:
  "submit_challenge clock2 practice_b challenge_1 (submission_request user_b)
     = (Json (stored_submission clock2 challenge_1 user_b), practice_b2)"
  and practice_b2_stats:
  "practice_b2 ''user_practice_stats''
     = [stats_a, (first_stats clock user_b)(''totalSubmissions'' \<mapsto> JNum 2,
                    ''totalPoints'' \<mapsto> JNum 200, ''updatedAt'' \<mapsto> JDate 6000)]"
proof -
  have *: "submit_challenge clock2 practice_b challenge_1 (submission_request user_b)
     = (Json (stored_submission clock2 challenge_1 user_b),
        practice_b(''challenge_submissions'' := practice_b ''challenge_submissions''
                    @ [stored_submission clock2 challenge_1 user_b],
                 ''user_practice_stats'' :=
                    [stats_a, (first_stats clock user_b)(''totalSubmissions'' \<mapsto> JNum 2,
                       ''totalPoints'' \<mapsto> JNum 200, ''updatedAt'' \<mapsto> JDate 6000)]))"
    by (rule submit_request_again)
       (simp_all add: is_uuid_user_b is_uuid_challenge_1 lower_challenge_1 lower_user_b
          practice_b_tables easy_python_id stats_a_userId user_a_neq_user_b
          first_stats_fields stored_submission_fields clock_def clock2_def int4_def)
  then have b: "practice_b2 = practice_b(''challenge_submissions'' := practice_b ''challenge_submissions''
                    @ [stored_submission clock2 challenge_1 user_b],
                 ''user_practice_stats'' :=
                    [stats_a, (first_stats clock user_b)(''totalSubmissions'' \<mapsto> JNum 2,
                       ''totalPoints'' \<mapsto> JNum 200, ''updatedAt'' \<mapsto> JDate 6000)])"
    by (simp add: practice_b2_def)
  from * b show "submit_challenge clock2 practice_b challenge_1 (submission_request user_b)
     = (Json (stored_submission clock2 challenge_1 user_b), practice_b2)"
    by simp
  show "practice_b2 ''user_practice_stats''
     = [stats_a, (first_stats clock user_b)(''totalSubmissions'' \<mapsto> JNum 2,
                    ''totalPoints'' \<mapsto> JNum 200, ''updatedAt'' \<mapsto> JDate 6000)]"
    unfolding b by simp
qed

lemma submit_a:
  "submit_challenge clock practice challenge_1 (submission_request user_a)
     = (Json (stored_submission clock challenge_1 user_a), practice_a)"
  and practice_a_stats:
  "practice_a ''user_practice_stats''
     = [stats_a(''totalSubmissions'' \<mapsto> JNum 4, ''totalPoints'' \<mapsto> JNum 400,
                ''updatedAt'' \<mapsto> JDate 5000)]"
proof -
  have *: "submit_challenge clock practice challenge_1 (submission_request user_a)
     = (Json (stored_submission clock challenge_1 user_a),
        practice(''challenge_submissions'' := practice ''challenge_submissions''
                    @ [stored_submission clock challenge_1 user_a],
                 ''user_practice_stats'' :=
                    [stats_a(''totalSubmissions'' \<mapsto> JNum 4, ''totalPoints'' \<mapsto> JNum 400,
                             ''updatedAt'' \<mapsto> JDate 5000)]))"
    by (rule submit_request_again)
       (simp_all add: is_uuid_user_a is_uuid_challenge_1 lower_challenge_1 lower_user_a
          practice_tables practice_stats easy_python_id stats_a_userId stats_a_fields
          clock_def int4_def)
  then have b: "practice_a = practice(''challenge_submissions'' := practice ''challenge_submissions''
                    @ [stored_submission clock challenge_1 user_a],
                 ''user_practice_stats'' :=
                    [stats_a(''totalSubmissions'' \<mapsto> JNum 4, ''totalPoints'' \<mapsto> JNum 400,
                             ''updatedAt'' \<mapsto> JDate 5000)])"
    by (simp add: practice_a_def)
  from * b show "submit_challenge clock practice challenge_1 (submission_request user_a)
     = (Json (stored_submission clock challenge_1 user_a), practice_a)"
    by simp
  show "practice_a ''user_practice_stats''
     = [stats_a(''totalSubmissions'' \<mapsto> JNum 4, ''totalPoints'' \<mapsto> JNum 400,
                ''updatedAt'' \<mapsto> JDate 5000)]"
    unfolding b by simp
qed

lemma uncounted_tables:
  "uncounted ''coding_challenges'' = [easy_python]"
  "uncounted ''challenge_submissions'' = []"
  "uncounted ''user_practice_stats'' = [stats_uncounted]"
  by (simp_all add: uncounted_def)

lemma stats_uncounted_fields:
  "stats_uncounted ''userId'' = Some (JStr user_a)"
  "stats_uncounted ''totalSubmissions'' = Some JNull"
  "stats_uncounted ''totalPoints'' = Some (JNum 300)"
  by (simp_all add: stats_uncounted_def stats_row_def)

lemma submit_uncounted:
  "submit_challenge clock uncounted challenge_1 (submission_request user_a)
     = (Json (stored_submission clock challenge_1 user_a), uncounted_a)"
  and uncounted_a_stats:
  "uncounted_a ''user_practice_stats''
     = [stats_uncounted(''totalSubmissions'' \<mapsto> JNull, ''totalPoints'' \<mapsto> JNum 400,
                        ''updatedAt'' \<mapsto> JDate 5000)]"
proof -
  have *: "submit_challenge clock uncounted challenge_1 (submission_request user_a)
     = (Json (stored_submission clock challenge_1 user_a),
        uncounted(''challenge_submissions'' := uncounted ''challenge_submissions''
                    @ [stored_submission clock challenge_1 user_a],
                 ''user_practice_stats'' :=
                    [stats_uncounted(''totalSubmissions'' \<mapsto> JNull, ''totalPoints'' \<mapsto> JNum 400,
                                     ''updatedAt'' \<mapsto> JDate 5000)]))"
    by (rule submit_request_again)
       (simp_all add: is_uuid_user_a is_uuid_challenge_1 lower_challenge_1 lower_user_a
          uncounted_tables easy_python_id stats_uncounted_fields clock_def int4_def)
  then have b: "uncounted_a = uncounted(''challenge_submissions'' := uncounted ''challenge_submissions''
                    @ [stored_submission clock challenge_1 user_a],
                 ''user_practice_stats'' :=
                    [stats_uncounted(''totalSubmissions'' \<mapsto> JNull, ''totalPoints'' \<mapsto> JNum 400,
                                     ''updatedAt'' \<mapsto> JDate 5000)])"
    by (simp add: uncounted_a_def)
  from * b show "submit_challenge clock uncounted challenge_1 (submission_request user_a)
     = (Json (stored_submission clock challenge_1 user_a), uncounted_a)"
    by simp
  show "uncounted_a ''user_practice_stats''
     = [stats_uncounted(''totalSubmissions'' \<mapsto> JNull, ''totalPoints'' \<mapsto> JNum 400,
                        ''updatedAt'' \<mapsto> JDate 5000)]"
    unfolding b by simp
qed

subsection \<open>The stats of a known user\<close>

lemma sql_add_num: "sql_add (Some (JNum n)) k = Inr v \<Longrightarrow> v = JNum (n + k)"
  by (simp split: if_splits)

lemma sql_add_null: "sql_add (Some JNull) k = Inr v \<Longrightarrow> v = JNull"
  by simp

text \<open>
  Claim C1, as stated, has the stored \<open>totalSubmissions\<close> incremented whenever the user
  has a stats row. The column is nullable, and the conflict branch computes
  \<open>total_submissions + 1\<close> in the store, where NULL + 1 is NULL: a row without a count is
  left without one. Here user a's row holds NULL and 300 points; the submission is
  answered 200, the points become 400 and the count is still NULL.
\<close>

theorem submit_challenge_null_count_counterexample:
  "uncounted ''user_practice_stats'' = [stats_uncounted]
   \<and> stats_uncounted ''userId'' = Some (JStr user_a)
   \<and> stats_uncounted ''totalSubmissions'' = Some JNull
   \<and> stats_uncounted ''totalPoints'' = Some (JNum 300)
   \<and> submission_request user_a ''userId'' = Some (JStr user_a)
   \<and> submit_challenge clock uncounted challenge_1 (submission_request user_a)
       = (Json (stored_submission clock challenge_1 user_a), uncounted_a)
   \<and> length (uncounted_a ''user_practice_stats'') = 1
   \<and> (uncounted_a ''user_practice_stats'' ! 0) ''userId'' = Some (JStr user_a)
   \<and> (uncounted_a ''user_practice_stats'' ! 0) ''totalSubmissions'' = Some JNull
   \<and> (uncounted_a ''user_practice_stats'' ! 0) ''totalPoints'' = Some (JNum 400)"
  by (simp add: uncounted_tables stats_uncounted_fields submission_request_userId
        submit_uncounted uncounted_a_stats)

text \<open>
  Claim C1, amended. Take a submission that is answered 200 and whose payload carries a
  \<open>userId\<close> (the validator has then checked that it is a uuid, and it is truthy).
  \<^item> If the stats table has no row for that user, a row is appended to it with
    \<open>totalChallenges = 1\<close>, \<open>totalSubmissions = 1\<close>, \<open>averageScore = "100.00"\<close> and
    \<open>totalPoints = 100\<close>. After a second such submission for the same user the table is
    the original one followed by one row of that user with \<open>totalSubmissions = 2\<close> and
    \<open>totalPoints = 200\<close>.
  \<^item> If the table has a row for that user, no row is added, and in each row of that
    user a stored \<open>totalSubmissions\<close> of \<open>n\<close> becomes \<open>n + 1\<close>, a stored
    \<open>totalSubmissions\<close> of NULL stays NULL, and a stored \<open>totalPoints\<close> of \<open>p\<close> (the
    column is NOT NULL) becomes \<open>p + 100\<close>: the stored values are added to, not
    overwritten.
\<close>

theorem submit_challenge_upserts_stats:
  assumes "submit_challenge e d cid body = (Json submission, d')"
    and "body ''userId'' = Some (JStr u)"
  shows "((\<forall>r \<in> set (d (tname userPracticeStats)). r ''userId'' \<noteq> Some (JStr (toLowerCase u))) \<longrightarrow>
            (\<exists>new. d' (tname userPracticeStats) = d (tname userPracticeStats) @ [new]
               \<and> new ''userId'' = Some (JStr (toLowerCase u))
               \<and> new ''totalChallenges'' = Some (JNum 1)
               \<and> new ''totalSubmissions'' = Some (JNum 1)
               \<and> new ''averageScore'' = Some (JStr ''100.00'')
               \<and> new ''totalPoints'' = Some (JNum 100))
          \<and> (\<forall>e2 cid2 body2 u2 submission2 d2.
                 submit_challenge e2 d' cid2 body2 = (Json submission2, d2)
               \<and> body2 ''userId'' = Some (JStr u2) \<and> toLowerCase u2 = toLowerCase u
               \<longrightarrow> (\<exists>row. d2 (tname userPracticeStats) = d (tname userPracticeStats) @ [row]
                      \<and> row ''userId'' = Some (JStr (toLowerCase u))
                      \<and> row ''totalSubmissions'' = Some (JNum 2)
                      \<and> row ''totalPoints'' = Some (JNum 200))))
       \<and> ((\<exists>r \<in> set (d (tname userPracticeStats)). r ''userId'' = Some (JStr (toLowerCase u))) \<longrightarrow>
            length (d' (tname userPracticeStats)) = length (d (tname userPracticeStats))
          \<and> (\<forall>i < length (d (tname userPracticeStats)).
                (d (tname userPracticeStats) ! i) ''userId'' = Some (JStr (toLowerCase u)) \<longrightarrow>
                (\<forall>n. (d (tname userPracticeStats) ! i) ''totalSubmissions'' = Some (JNum n) \<longrightarrow>
                     (d' (tname userPracticeStats) ! i) ''totalSubmissions'' = Some (JNum (n + 1)))
              \<and> ((d (tname userPracticeStats) ! i) ''totalSubmissions'' = Some JNull \<longrightarrow>
                     (d' (tname userPracticeStats) ! i) ''totalSubmissions'' = Some JNull)
              \<and> (\<forall>p. (d (tname userPracticeStats) ! i) ''totalPoints'' = Some (JNum p) \<longrightarrow>
                     (d' (tname userPracticeStats) ! i) ''totalPoints'' = Some (JNum (p + 100)))))"
proof -
  define old where "old = d ''user_practice_stats''"
  define new where "new = Map.empty(''updatedAt'' \<mapsto> JDate (now e), ''lastSubmissionDate'' \<mapsto> JNull,
              ''longestStreak'' \<mapsto> JNum 0, ''currentStreak'' \<mapsto> JNum 0,
              ''totalPoints'' \<mapsto> JNum 100, ''rankDistribution'' \<mapsto> JObj [],
              ''difficultyBreakdown'' \<mapsto> JObj [], ''languagesPracticed'' \<mapsto> JObj [],
              ''bestRank'' \<mapsto> JNull, ''averageScore'' \<mapsto> JStr ''100.00'',
              ''totalSubmissions'' \<mapsto> JNum 1, ''totalChallenges'' \<mapsto> JNum 1,
              ''userId'' \<mapsto> JStr (toLowerCase u))"
  have new_fields: "new ''userId'' = Some (JStr (toLowerCase u))"
    "new ''totalChallenges'' = Some (JNum 1)" "new ''totalSubmissions'' = Some (JNum 1)"
    "new ''averageScore'' = Some (JStr ''100.00'')" "new ''totalPoints'' = Some (JNum 100)"
    by (simp_all add: new_def)
  have first: "d' ''user_practice_stats'' = old @ [new]"
    if "\<forall>r \<in> set old. r ''userId'' \<noteq> Some (JStr (toLowerCase u))"
    using submit_inserts_stats [OF assms that [unfolded old_def]]
    by (simp only: old_def new_def)
  have second: "\<exists>row. d2 ''user_practice_stats'' = old @ [row]
                      \<and> row ''userId'' = Some (JStr (toLowerCase u))
                      \<and> row ''totalSubmissions'' = Some (JNum 2)
                      \<and> row ''totalPoints'' = Some (JNum 200)"
    if none: "\<forall>r \<in> set old. r ''userId'' \<noteq> Some (JStr (toLowerCase u))"
      and again: "submit_challenge e2 d' cid2 body2 = (Json submission2, d2)"
      and user: "body2 ''userId'' = Some (JStr u2)" and same: "toLowerCase u2 = toLowerCase u"
    for e2 cid2 body2 u2 submission2 d2
  proof -
    note d'_stats = first [OF none]
    have hit: "\<exists>r \<in> set (d' ''user_practice_stats''). r ''userId'' = Some (JStr (toLowerCase u2))"
      by (simp add: d'_stats same new_fields)
    note upd = submit_updates_stats [OF again user hit, unfolded d'_stats same]
    from upd(1) have len: "length (d2 ''user_practice_stats'') = length old + 1"
      by simp
    have kept: "d2 ''user_practice_stats'' ! i = old ! i" if "i < length old" for i
    proof -
      from that none have "(old ! i) ''userId'' \<noteq> Some (JStr (toLowerCase u))"
        by simp
      with upd(3) [of i] that show ?thesis
        by (simp add: nth_append)
    qed
    from upd(2) [of "length old"] obtain subs pts where
      subs: "sql_add (new ''totalSubmissions'') 1 = Inr subs"
      and pts: "sql_add (new ''totalPoints'') 100 = Inr pts"
      and last: "d2 ''user_practice_stats'' ! length old
                   = new(''totalSubmissions'' \<mapsto> subs, ''totalPoints'' \<mapsto> pts,
                         ''updatedAt'' \<mapsto> JDate (now e2))"
      by (auto simp: new_fields)
    from subs have subs2: "subs = JNum 2"
      by (simp add: new_fields int4_def)
    from pts have pts2: "pts = JNum 200"
      by (simp add: new_fields int4_def)
    let ?row = "new(''totalSubmissions'' \<mapsto> subs, ''totalPoints'' \<mapsto> pts,
                    ''updatedAt'' \<mapsto> JDate (now e2))"
    have "d2 ''user_practice_stats'' = old @ [?row]"
    proof (rule nth_equalityI)
      show "length (d2 ''user_practice_stats'') = length (old @ [?row])"
        using len by simp
    next
      fix i assume "i < length (d2 ''user_practice_stats'')"
      with len have "i < length old \<or> i = length old" by auto
      then show "d2 ''user_practice_stats'' ! i = (old @ [?row]) ! i"
        using kept last by (auto simp: nth_append)
    qed
    moreover have "?row ''userId'' = Some (JStr (toLowerCase u))"
      "?row ''totalSubmissions'' = Some (JNum 2)" "?row ''totalPoints'' = Some (JNum 200)"
      by (simp_all add: new_fields subs2 pts2)
    ultimately show ?thesis
      by (intro exI [of _ ?row] conjI)
  qed
  have later: "length (d' ''user_practice_stats'') = length old
          \<and> (\<forall>i < length old.
                (old ! i) ''userId'' = Some (JStr (toLowerCase u)) \<longrightarrow>
                (\<forall>n. (old ! i) ''totalSubmissions'' = Some (JNum n) \<longrightarrow>
                     (d' ''user_practice_stats'' ! i) ''totalSubmissions'' = Some (JNum (n + 1)))
              \<and> ((old ! i) ''totalSubmissions'' = Some JNull \<longrightarrow>
                     (d' ''user_practice_stats'' ! i) ''totalSubmissions'' = Some JNull)
              \<and> (\<forall>p. (old ! i) ''totalPoints'' = Some (JNum p) \<longrightarrow>
                     (d' ''user_practice_stats'' ! i) ''totalPoints'' = Some (JNum (p + 100))))"
    if hit: "\<exists>r \<in> set old. r ''userId'' = Some (JStr (toLowerCase u))"
  proof -
    note upd = submit_updates_stats [OF assms hit [unfolded old_def], folded old_def]
    have "(\<forall>n. (old ! i) ''totalSubmissions'' = Some (JNum n) \<longrightarrow>
                     (d' ''user_practice_stats'' ! i) ''totalSubmissions'' = Some (JNum (n + 1)))
              \<and> ((old ! i) ''totalSubmissions'' = Some JNull \<longrightarrow>
                     (d' ''user_practice_stats'' ! i) ''totalSubmissions'' = Some JNull)
              \<and> (\<forall>p. (old ! i) ''totalPoints'' = Some (JNum p) \<longrightarrow>
                     (d' ''user_practice_stats'' ! i) ''totalPoints'' = Some (JNum (p + 100)))"
      if i: "i < length old" and mine: "(old ! i) ''userId'' = Some (JStr (toLowerCase u))" for i
    proof -
      from upd(2) [OF i mine] obtain subs pts where
        subs: "sql_add ((old ! i) ''totalSubmissions'') 1 = Inr subs"
        and pts: "sql_add ((old ! i) ''totalPoints'') 100 = Inr pts"
        and row: "d' ''user_practice_stats'' ! i
                   = (old ! i)(''totalSubmissions'' \<mapsto> subs, ''totalPoints'' \<mapsto> pts,
                               ''updatedAt'' \<mapsto> JDate (now e))"
        by (elim exE conjE)
      have "(d' ''user_practice_stats'' ! i) ''totalSubmissions'' = Some (JNum (n + 1))"
        if "(old ! i) ''totalSubmissions'' = Some (JNum n)" for n
        using subs that sql_add_num [of n 1 subs] by (simp add: row)
      moreover have "(d' ''user_practice_stats'' ! i) ''totalSubmissions'' = Some JNull"
        if "(old ! i) ''totalSubmissions'' = Some JNull"
        using subs that sql_add_null [of 1 subs] by (simp add: row)
      moreover have "(d' ''user_practice_stats'' ! i) ''totalPoints'' = Some (JNum (p + 100))"
        if "(old ! i) ''totalPoints'' = Some (JNum p)" for p
        using pts that sql_add_num [of p 100 pts] by (simp add: row)
      ultimately show ?thesis by blast
    qed
    with upd(1) show ?thesis by blast
  qed
  have part1: "(\<forall>r \<in> set old. r ''userId'' \<noteq> Some (JStr (toLowerCase u))) \<longrightarrow>
            (\<exists>new. d' ''user_practice_stats'' = old @ [new]
               \<and> new ''userId'' = Some (JStr (toLowerCase u))
               \<and> new ''totalChallenges'' = Some (JNum 1)
               \<and> new ''totalSubmissions'' = Some (JNum 1)
               \<and> new ''averageScore'' = Some (JStr ''100.00'')
               \<and> new ''totalPoints'' = Some (JNum 100))
          \<and> (\<forall>e2 cid2 body2 u2 submission2 d2.
                 submit_challenge e2 d' cid2 body2 = (Json submission2, d2)
               \<and> body2 ''userId'' = Some (JStr u2) \<and> toLowerCase u2 = toLowerCase u
               \<longrightarrow> (\<exists>row. d2 ''user_practice_stats'' = old @ [row]
                      \<and> row ''userId'' = Some (JStr (toLowerCase u))
                      \<and> row ''totalSubmissions'' = Some (JNum 2)
                      \<and> row ''totalPoints'' = Some (JNum 200)))"
  proof (intro impI conjI allI)
    assume none: "\<forall>r \<in> set old. r ''userId'' \<noteq> Some (JStr (toLowerCase u))"
    from first [OF none] new_fields
    show "\<exists>new. d' ''user_practice_stats'' = old @ [new]
               \<and> new ''userId'' = Some (JStr (toLowerCase u))
               \<and> new ''totalChallenges'' = Some (JNum 1)
               \<and> new ''totalSubmissions'' = Some (JNum 1)
               \<and> new ''averageScore'' = Some (JStr ''100.00'')
               \<and> new ''totalPoints'' = Some (JNum 100)"
      by (intro exI [of _ new] conjI)
  next
    fix e2 cid2 body2 u2 submission2 d2
    assume none: "\<forall>r \<in> set old. r ''userId'' \<noteq> Some (JStr (toLowerCase u))"
      and "submit_challenge e2 d' cid2 body2 = (Json submission2, d2)
               \<and> body2 ''userId'' = Some (JStr u2) \<and> toLowerCase u2 = toLowerCase u"
    then show "\<exists>row. d2 ''user_practice_stats'' = old @ [row]
                      \<and> row ''userId'' = Some (JStr (toLowerCase u))
                      \<and> row ''totalSubmissions'' = Some (JNum 2)
                      \<and> row ''totalPoints'' = Some (JNum 200)"
      using second [of e2 cid2 body2 submission2 d2 u2] by simp
  qed
  have part2: "(\<exists>r \<in> set old. r ''userId'' = Some (JStr (toLowerCase u))) \<longrightarrow>
            length (d' ''user_practice_stats'') = length old
          \<and> (\<forall>i < length old.
                (old ! i) ''userId'' = Some (JStr (toLowerCase u)) \<longrightarrow>
                (\<forall>n. (old ! i) ''totalSubmissions'' = Some (JNum n) \<longrightarrow>
                     (d' ''user_practice_stats'' ! i) ''totalSubmissions'' = Some (JNum (n + 1)))
              \<and> ((old ! i) ''totalSubmissions'' = Some JNull \<longrightarrow>
                     (d' ''user_practice_stats'' ! i) ''totalSubmissions'' = Some JNull)
              \<and> (\<forall>p. (old ! i) ''totalPoints'' = Some (JNum p) \<longrightarrow>
                     (d' ''user_practice_stats'' ! i) ''totalPoints'' = Some (JNum (p + 100))))"
  proof
    assume "\<exists>r \<in> set old. r ''userId'' = Some (JStr (toLowerCase u))"
    then show "length (d' ''user_practice_stats'') = length old
          \<and> (\<forall>i < length old.
                (old ! i) ''userId'' = Some (JStr (toLowerCase u)) \<longrightarrow>
                (\<forall>n. (old ! i) ''totalSubmissions'' = Some (JNum n) \<longrightarrow>
                     (d' ''user_practice_stats'' ! i) ''totalSubmissions'' = Some (JNum (n + 1)))
              \<and> ((old ! i) ''totalSubmissions'' = Some JNull \<longrightarrow>
                     (d' ''user_practice_stats'' ! i) ''totalSubmissions'' = Some JNull)
              \<and> (\<forall>p. (old ! i) ''totalPoints'' = Some (JNum p) \<longrightarrow>
                     (d' ''user_practice_stats'' ! i) ''totalPoints'' = Some (JNum (p + 100))))"
      by (rule later)
  qed
  from part1 [unfolded old_def] part2 [unfolded old_def] show ?thesis
    unfolding tname_simps by (rule conjI)
qed

theorem submit_challenge_upserts_stats_witness:
  "submit_challenge clock practice challenge_1 (submission_request user_b)
     = (Json (stored_submission clock challenge_1 user_b), practice_b)
   \<and> (last (practice_b ''user_practice_stats'')) ''totalSubmissions'' = Some (JNum 1)
   \<and> (last (practice_b ''user_practice_stats'')) ''totalPoints'' = Some (JNum 100)
   \<and> submit_challenge clock2 practice_b challenge_1 (submission_request user_b)
     = (Json (stored_submission clock2 challenge_1 user_b), practice_b2)
   \<and> (last (practice_b2 ''user_practice_stats'')) ''totalSubmissions'' = Some (JNum 2)
   \<and> (last (practice_b2 ''user_practice_stats'')) ''totalPoints'' = Some (JNum 200)
   \<and> submit_challenge clock practice challenge_1 (submission_request user_a)
     = (Json (stored_submission clock challenge_1 user_a), practice_a)
   \<and> (practice_a ''user_practice_stats'' ! 0) ''totalSubmissions'' = Some (JNum 4)
   \<and> (practice_a ''user_practice_stats'' ! 0) ''totalPoints'' = Some (JNum 400)
   \<and> (uncounted_a ''user_practice_stats'' ! 0) ''totalSubmissions'' = Some JNull"
proof -
  note for_u = submit_challenge_upserts_stats [OF submit_uncounted submission_request_userId]
  have hit_u: "\<exists>r \<in> set (uncounted (tname userPracticeStats)).
                  r ''userId'' = Some (JStr (toLowerCase user_a))"
    by (simp add: tname_simps uncounted_tables stats_uncounted_fields lower_user_a)
  from for_u [THEN conjunct2, THEN mp, OF hit_u, THEN conjunct2, THEN spec, of 0]
  have u: "(uncounted_a ''user_practice_stats'' ! 0) ''totalSubmissions'' = Some JNull"
    unfolding tname_simps
    by (simp add: uncounted_tables stats_uncounted_fields lower_user_a)
  note for_b = submit_challenge_upserts_stats [OF submit_b submission_request_userId]
  note for_a = submit_challenge_upserts_stats [OF submit_a submission_request_userId]
  have none_b: "\<forall>r \<in> set (practice (tname userPracticeStats)).
                  r ''userId'' \<noteq> Some (JStr (toLowerCase user_b))"
    by (simp add: tname_simps practice_stats stats_a_userId lower_user_b user_a_neq_user_b)
  have hit_a: "\<exists>r \<in> set (practice (tname userPracticeStats)).
                  r ''userId'' = Some (JStr (toLowerCase user_a))"
    by (simp add: tname_simps practice_stats stats_a_userId lower_user_a)
  note first_b = for_b [THEN conjunct1, THEN mp, OF none_b]
  from first_b [THEN conjunct1]
  have b1: "(last (practice_b ''user_practice_stats'')) ''totalSubmissions'' = Some (JNum 1)
          \<and> (last (practice_b ''user_practice_stats'')) ''totalPoints'' = Some (JNum 100)"
    unfolding tname_simps by clarsimp
  have again: "submit_challenge clock2 practice_b challenge_1 (submission_request user_b)
                 = (Json (stored_submission clock2 challenge_1 user_b), practice_b2)
               \<and> submission_request user_b ''userId'' = Some (JStr user_b)
               \<and> toLowerCase user_b = toLowerCase user_b"
    by (simp add: submit_b2 submission_request_userId)
  from first_b [THEN conjunct2, THEN spec, THEN spec, THEN spec, THEN spec, THEN spec, THEN spec,
      THEN mp, OF again]
  have b2: "(last (practice_b2 ''user_practice_stats'')) ''totalSubmissions'' = Some (JNum 2)
          \<and> (last (practice_b2 ''user_practice_stats'')) ''totalPoints'' = Some (JNum 200)"
    unfolding tname_simps by clarsimp
  from for_a [THEN conjunct2, THEN mp, OF hit_a, THEN conjunct2, THEN spec, of 0]
  have a: "(practice_a ''user_practice_stats'' ! 0) ''totalSubmissions'' = Some (JNum 4)
         \<and> (practice_a ''user_practice_stats'' ! 0) ''totalPoints'' = Some (JNum 400)"
    unfolding tname_simps
    by (simp add: practice_stats stats_a_userId lower_user_a stats_a_fields)
  from b1 b2 a u show ?thesis
    by (simp add: submit_b submit_b2 submit_a)
qed

subsection \<open>What the conflict branch leaves alone\<close>

text \<open>
  Claim C2. Take a submission that is answered 200, with a \<open>userId\<close> in its payload
  for which the stats table has a row, so that the upsert takes its conflict branch.
  Then the stats table keeps its rows, and in every row every field other than
  \<open>totalSubmissions\<close>, \<open>totalPoints\<close> and \<open>updatedAt\<close> is what it was: \<open>averageScore\<close>,
  \<open>totalChallenges\<close>, \<open>currentStreak\<close>, \<open>longestStreak\<close> and \<open>lastSubmissionDate\<close> in
  particular. In the rows of that user \<open>updatedAt\<close> becomes the time of the request; the
  rows of other users are unchanged altogether.
\<close>

theorem submit_challenge_conflict_frame:
  assumes "submit_challenge e d cid body = (Json submission, d')"
    and "body ''userId'' = Some (JStr u)"
    and "\<exists>r \<in> set (d (tname userPracticeStats)). r ''userId'' = Some (JStr (toLowerCase u))"
  shows "length (d' (tname userPracticeStats)) = length (d (tname userPracticeStats))
       \<and> (\<forall>i < length (d (tname userPracticeStats)). \<forall>k.
             k \<notin> {''totalSubmissions'', ''totalPoints'', ''updatedAt''} \<longrightarrow>
             (d' (tname userPracticeStats) ! i) k = (d (tname userPracticeStats) ! i) k)
       \<and> (\<forall>i < length (d (tname userPracticeStats)).
             (d' (tname userPracticeStats) ! i) ''averageScore''
               = (d (tname userPracticeStats) ! i) ''averageScore''
           \<and> (d' (tname userPracticeStats) ! i) ''totalChallenges''
               = (d (tname userPracticeStats) ! i) ''totalChallenges''
           \<and> (d' (tname userPracticeStats) ! i) ''currentStreak''
               = (d (tname userPracticeStats) ! i) ''currentStreak''
           \<and> (d' (tname userPracticeStats) ! i) ''longestStreak''
               = (d (tname userPracticeStats) ! i) ''longestStreak''
           \<and> (d' (tname userPracticeStats) ! i) ''lastSubmissionDate''
               = (d (tname userPracticeStats) ! i) ''lastSubmissionDate'')
       \<and> (\<forall>i < length (d (tname userPracticeStats)).
             (d (tname userPracticeStats) ! i) ''userId'' = Some (JStr (toLowerCase u)) \<longrightarrow>
             (d' (tname userPracticeStats) ! i) ''updatedAt'' = Some (JDate (now e)))
       \<and> (\<forall>i < length (d (tname userPracticeStats)).
             (d (tname userPracticeStats) ! i) ''userId'' \<noteq> Some (JStr (toLowerCase u)) \<longrightarrow>
             d' (tname userPracticeStats) ! i = d (tname userPracticeStats) ! i)"
proof -
  define old where "old = d ''user_practice_stats''"
  define new where "new = d' ''user_practice_stats''"
  note upd = submit_updates_stats [OF assms(1,2) assms(3) [unfolded tname_simps],
      folded old_def new_def]
  have frame: "(new ! i) k = (old ! i) k"
    if i: "i < length old" and k: "k \<notin> {''totalSubmissions'', ''totalPoints'', ''updatedAt''}"
    for i k
  proof (cases "(old ! i) ''userId'' = Some (JStr (toLowerCase u))")
    case True
    from upd(2) [OF i True] obtain subs pts where
      "new ! i = (old ! i)(''totalSubmissions'' \<mapsto> subs, ''totalPoints'' \<mapsto> pts,
                           ''updatedAt'' \<mapsto> JDate (now e))"
      by (elim exE conjE)
    with k show ?thesis by simp
  next
    case False
    from upd(3) [OF i False] show ?thesis by simp
  qed
  have stamp: "(new ! i) ''updatedAt'' = Some (JDate (now e))"
    if i: "i < length old" and mine: "(old ! i) ''userId'' = Some (JStr (toLowerCase u))" for i
  proof -
    from upd(2) [OF i mine] obtain subs pts where
      "new ! i = (old ! i)(''totalSubmissions'' \<mapsto> subs, ''totalPoints'' \<mapsto> pts,
                           ''updatedAt'' \<mapsto> JDate (now e))"
      by (elim exE conjE)
    then show ?thesis by simp
  qed
  have "length new = length old
       \<and> (\<forall>i < length old. \<forall>k.
             k \<notin> {''totalSubmissions'', ''totalPoints'', ''updatedAt''} \<longrightarrow>
             (new ! i) k = (old ! i) k)
       \<and> (\<forall>i < length old.
             (new ! i) ''averageScore'' = (old ! i) ''averageScore''
           \<and> (new ! i) ''totalChallenges'' = (old ! i) ''totalChallenges''
           \<and> (new ! i) ''currentStreak'' = (old ! i) ''currentStreak''
           \<and> (new ! i) ''longestStreak'' = (old ! i) ''longestStreak''
           \<and> (new ! i) ''lastSubmissionDate'' = (old ! i) ''lastSubmissionDate'')
       \<and> (\<forall>i < length old.
             (old ! i) ''userId'' = Some (JStr (toLowerCase u)) \<longrightarrow>
             (new ! i) ''updatedAt'' = Some (JDate (now e)))
       \<and> (\<forall>i < length old.
             (old ! i) ''userId'' \<noteq> Some (JStr (toLowerCase u)) \<longrightarrow> new ! i = old ! i)"
  proof (intro conjI allI impI)
    show "length new = length old" by (rule upd(1))
  next
    fix i k
    assume "i < length old" and "k \<notin> {''totalSubmissions'', ''totalPoints'', ''updatedAt''}"
    then show "(new ! i) k = (old ! i) k" by (rule frame)
  next
    fix i assume "i < length old"
    then show "(new ! i) ''averageScore'' = (old ! i) ''averageScore''" by (rule frame) simp
  next
    fix i assume "i < length old"
    then show "(new ! i) ''totalChallenges'' = (old ! i) ''totalChallenges''" by (rule frame) simp
  next
    fix i assume "i < length old"
    then show "(new ! i) ''currentStreak'' = (old ! i) ''currentStreak''" by (rule frame) simp
  next
    fix i assume "i < length old"
    then show "(new ! i) ''longestStreak'' = (old ! i) ''longestStreak''" by (rule frame) simp
  next
    fix i assume "i < length old"
    then show "(new ! i) ''lastSubmissionDate'' = (old ! i) ''lastSubmissionDate''"
      by (rule frame) simp
  next
    fix i
    assume "i < length old" and "(old ! i) ''userId'' = Some (JStr (toLowerCase u))"
    then show "(new ! i) ''updatedAt'' = Some (JDate (now e))" by (rule stamp)
  next
    fix i
    assume "i < length old" and "(old ! i) ''userId'' \<noteq> Some (JStr (toLowerCase u))"
    then show "new ! i = old ! i" by (rule upd(3))
  qed
  then show ?thesis
    unfolding tname_simps old_def new_def .
qed

theorem submit_challenge_conflict_frame_witness:
  "submit_challenge clock practice challenge_1 (submission_request user_a)
     = (Json (stored_submission clock challenge_1 user_a), practice_a)
   \<and> length (practice_a ''user_practice_stats'') = 1
   \<and> (practice_a ''user_practice_stats'' ! 0) ''averageScore'' = Some (JStr ''100.00'')
   \<and> (practice_a ''user_practice_stats'' ! 0) ''totalChallenges'' = Some (JNum 1)
   \<and> (practice_a ''user_practice_stats'' ! 0) ''updatedAt'' = Some (JDate 5000)"
proof -
  have hit_a: "\<exists>r \<in> set (practice (tname userPracticeStats)).
                  r ''userId'' = Some (JStr (toLowerCase user_a))"
    by (simp add: tname_simps practice_stats stats_a_userId lower_user_a)
  note frame = submit_challenge_conflict_frame [OF submit_a submission_request_userId hit_a,
      unfolded tname_simps practice_stats]
  from frame [THEN conjunct1]
  have len: "length (practice_a ''user_practice_stats'') = 1"
    by simp
  from frame [THEN conjunct2, THEN conjunct2, THEN conjunct1, THEN spec, of 0]
  have kept: "(practice_a ''user_practice_stats'' ! 0) ''averageScore'' = Some (JStr ''100.00'')
            \<and> (practice_a ''user_practice_stats'' ! 0) ''totalChallenges'' = Some (JNum 1)"
    by (simp add: stats_a_fields)
  from frame [THEN conjunct2, THEN conjunct2, THEN conjunct2, THEN conjunct1, THEN spec, of 0]
  have stamp: "(practice_a ''user_practice_stats'' ! 0) ''updatedAt'' = Some (JDate 5000)"
    by (simp add: stats_a_userId lower_user_a clock_def)
  from len kept stamp show ?thesis
    by (simp add: submit_a)
qed

section \<open>PATCH /api/snippets/:shareToken\<close>

text \<open>The statement of the handler, whatever it answers: which rows and columns it can touch.\<close>

lemma update_snippet_frame:
  assumes "update_set_where e d codeSnippets s (Eq ''shareToken'' tok) = Inr (rows, d')"
  shows "length (d' ''code_snippets'') = length (d ''code_snippets'')"
    and "\<And>i k. i < length (d ''code_snippets'') \<Longrightarrow> s k = None \<Longrightarrow>
            (d' ''code_snippets'' ! i) k = (d ''code_snippets'' ! i) k"
    and "\<And>i. i < length (d ''code_snippets'') \<Longrightarrow>
            (d ''code_snippets'' ! i) ''shareToken'' \<noteq> Some (JStr tok) \<Longrightarrow>
            d' ''code_snippets'' ! i = d ''code_snippets'' ! i"
    and "\<And>t. t \<noteq> ''code_snippets'' \<Longrightarrow> d' t = d t"
proof -
  let ?f = "\<lambda>r. if holds codeSnippets (Eq ''shareToken'' tok) r
                 then apply_set e (columns codeSnippets) s r else Inr r"
  from assms obtain new where new: "map_result ?f (d ''code_snippets'') = Inr new"
    and d': "d' = d(''code_snippets'' := new)"
    unfolding update_set_where_def
    by (auto simp: tname_simps well_typed_shareToken split: sum.splits simp del: holds.simps well_typed.simps)
  note each = map_result_Inr [OF new]
  from each d' show "length (d' ''code_snippets'') = length (d ''code_snippets'')"
    by simp
  from d' show "d' t = d t" if "t \<noteq> ''code_snippets''" for t
    using that by simp
  show "(d' ''code_snippets'' ! i) k = (d ''code_snippets'' ! i) k"
    if i: "i < length (d ''code_snippets'')" and k: "s k = None" for i k
  proof -
    from each i have *: "?f (d ''code_snippets'' ! i) = Inr (new ! i)" by blast
    have "(new ! i) k = (d ''code_snippets'' ! i) k"
    proof (cases "holds codeSnippets (Eq ''shareToken'' tok) (d ''code_snippets'' ! i)")
      case True
      with * have "apply_set e (columns codeSnippets) s (d ''code_snippets'' ! i) = Inr (new ! i)"
        by simp
      from apply_set_frame [OF this k] show ?thesis .
    next
      case False
      with * show ?thesis by simp
    qed
    with d' show ?thesis by simp
  qed
  show "d' ''code_snippets'' ! i = d ''code_snippets'' ! i"
    if i: "i < length (d ''code_snippets'')"
      and other: "(d ''code_snippets'' ! i) ''shareToken'' \<noteq> Some (JStr tok)" for i
  proof -
    from each i have "?f (d ''code_snippets'' ! i) = Inr (new ! i)" by blast
    with other have "new ! i = d ''code_snippets'' ! i"
      by (simp add: holds_shareToken del: holds.simps)
    with d' show ?thesis by simp
  qed
qed

lemma update_snippet_no_match:
  assumes "\<forall>r \<in> set (d ''code_snippets''). r ''shareToken'' \<noteq> Some (JStr tok)"
  shows "update_set_where e d codeSnippets s (Eq ''shareToken'' tok) = Inr ([], d)"
proof -
  let ?f = "\<lambda>r. if holds codeSnippets (Eq ''shareToken'' tok) r
                 then apply_set e (columns codeSnippets) s r else Inr r"
  from assms have "map_result ?f (d ''code_snippets'') = Inr (d ''code_snippets'')"
    by (intro map_result_id) (simp add: holds_shareToken del: holds.simps)
  moreover from assms have
    "filter (\<lambda>(r, r'). holds codeSnippets (Eq ''shareToken'' tok) r)
        (zip (d ''code_snippets'') (d ''code_snippets'')) = []"
    by (auto simp: filter_empty_conv holds_shareToken dest: set_zip_leftD simp del: holds.simps)
  ultimately show ?thesis
    unfolding update_set_where_def
    by (simp add: tname_simps well_typed_shareToken del: holds.simps well_typed.simps)
qed

text \<open>
  Claim C3. Whatever a PATCH request for a share token carries and whatever the
  handler answers, the snippets table keeps its rows, and in every row every field other
  than \<open>content\<close>, \<open>title\<close>, \<open>description\<close>, \<open>language\<close> and \<open>updatedAt\<close> is what it
  was (\<open>id\<close>, \<open>shareToken\<close>, \<open>ownerId\<close>, \<open>isPublic\<close>, \<open>isProtected\<close>, \<open>createdAt\<close> among
  them); a row with another share token is unchanged altogether, and so is every other
  table. If no row has the share token, the handler answers 404 "Snippet not found" and
  the store is what it was.
\<close>

theorem patch_snippet_frame:
  assumes "patch_snippet e d tok body = (res, d')"
  shows "length (d' (tname codeSnippets)) = length (d (tname codeSnippets))
       \<and> (\<forall>i < length (d (tname codeSnippets)). \<forall>k.
             k \<notin> {''content'', ''title'', ''description'', ''language'', ''updatedAt''} \<longrightarrow>
             (d' (tname codeSnippets) ! i) k = (d (tname codeSnippets) ! i) k)
       \<and> (\<forall>i < length (d (tname codeSnippets)).
             (d (tname codeSnippets) ! i) ''shareToken'' \<noteq> Some (JStr tok) \<longrightarrow>
             d' (tname codeSnippets) ! i = d (tname codeSnippets) ! i)
       \<and> (\<forall>t. t \<noteq> tname codeSnippets \<longrightarrow> d' t = d t)
       \<and> ((\<forall>r \<in> set (d (tname codeSnippets)). r ''shareToken'' \<noteq> Some (JStr tok)) \<longrightarrow>
             res = Status 404 (Text ''Snippet not found'') \<and> status_of res = 404 \<and> d' = d)"
proof -
  let ?s = "Map.empty(''content'' := body ''content'', ''title'' := body ''title'',
                      ''description'' := body ''description'', ''language'' := body ''language'',
                      ''updatedAt'' \<mapsto> JDate (now e))"
  have unset: "?s k = None"
    if "k \<notin> {''content'', ''title'', ''description'', ''language'', ''updatedAt''}" for k
    using that by simp
  have frame: "length (d' ''code_snippets'') = length (d ''code_snippets'')
       \<and> (\<forall>i < length (d ''code_snippets''). \<forall>k.
             k \<notin> {''content'', ''title'', ''description'', ''language'', ''updatedAt''} \<longrightarrow>
             (d' ''code_snippets'' ! i) k = (d ''code_snippets'' ! i) k)
       \<and> (\<forall>i < length (d ''code_snippets'').
             (d ''code_snippets'' ! i) ''shareToken'' \<noteq> Some (JStr tok) \<longrightarrow>
             d' ''code_snippets'' ! i = d ''code_snippets'' ! i)
       \<and> (\<forall>t. t \<noteq> ''code_snippets'' \<longrightarrow> d' t = d t)"
  proof (cases "update_set_where e d codeSnippets ?s (Eq ''shareToken'' tok)")
    case (Inl err)
    with assms have "d' = d"
      by (simp add: patch_snippet_def Let_def)
    then show ?thesis by simp
  next
    case (Inr p)
    then obtain rows d1 where upd: "update_set_where e d codeSnippets ?s (Eq ''shareToken'' tok) = Inr (rows, d1)"
      by (cases p) simp
    with assms have "d' = d1"
      by (simp add: patch_snippet_def Let_def split: list.splits)
    with upd have upd': "update_set_where e d codeSnippets ?s (Eq ''shareToken'' tok) = Inr (rows, d')"
      by simp
    note f = update_snippet_frame [OF upd']
    show ?thesis
    proof (intro conjI allI impI)
      show "length (d' ''code_snippets'') = length (d ''code_snippets'')" by (rule f(1))
    next
      fix i k
      assume "i < length (d ''code_snippets'')"
        and "k \<notin> {''content'', ''title'', ''description'', ''language'', ''updatedAt''}"
      then show "(d' ''code_snippets'' ! i) k = (d ''code_snippets'' ! i) k"
        by (intro f(2) unset)
    next
      fix i
      assume "i < length (d ''code_snippets'')"
        and "(d ''code_snippets'' ! i) ''shareToken'' \<noteq> Some (JStr tok)"
      then show "d' ''code_snippets'' ! i = d ''code_snippets'' ! i"
        by (rule f(3))
    next
      fix t :: string
      assume "t \<noteq> ''code_snippets''"
      then show "d' t = d t" by (rule f(4))
    qed
  qed
  have missing: "res = Status 404 (Text ''Snippet not found'') \<and> status_of res = 404 \<and> d' = d"
    if "\<forall>r \<in> set (d ''code_snippets''). r ''shareToken'' \<noteq> Some (JStr tok)"
    using assms update_snippet_no_match [where d=d and tok=tok and e=e and s="?s", OF that]
    by (auto simp: patch_snippet_def Let_def)
  from frame missing show ?thesis
    unfolding tname_simps by blast
qed

lemma edit_request_fields:
  "edit_request ''content'' = Some (JStr ''print(1)'')"
  "edit_request ''title'' = None"
  "edit_request ''description'' = None"
  "edit_request ''language'' = Some (JStr ''python'')"
  by (simp_all add: edit_request_def)

lemma edit_fizzbuzz:
  "apply_set clock (columns codeSnippets)
     (Map.empty(''content'' := edit_request ''content'', ''title'' := edit_request ''title'',
                ''description'' := edit_request ''description'',
                ''language'' := edit_request ''language'',
                ''updatedAt'' \<mapsto> JDate (now clock)))
     fizzbuzz
   = Inr (fizzbuzz(''content'' \<mapsto> JStr ''print(1)'', ''language'' \<mapsto> JStr ''python'',
                   ''updatedAt'' \<mapsto> JDate 5000))"
  by (simp add: codeSnippets_def column_defs edit_request_fields clock_def)

lemma patch_fizzbuzz:
  "fst (patch_snippet clock snippets ''V1StGXR8_Z5j'' edit_request)
     = Json (fizzbuzz(''content'' \<mapsto> JStr ''print(1)'', ''language'' \<mapsto> JStr ''python'',
                      ''updatedAt'' \<mapsto> JDate 5000))"
  unfolding patch_snippet_def Let_def update_set_where_def
  by (simp add: well_typed_shareToken holds_shareToken tname_simps snippets_rows fizzbuzz_fields
        edit_fizzbuzz del: holds.simps well_typed.simps)

theorem patch_snippet_frame_witness:
  "fst (patch_snippet clock snippets ''V1StGXR8_Z5j'' edit_request)
     = Json (fizzbuzz(''content'' \<mapsto> JStr ''print(1)'', ''language'' \<mapsto> JStr ''python'',
                      ''updatedAt'' \<mapsto> JDate 5000))
   \<and> (snd (patch_snippet clock snippets ''V1StGXR8_Z5j'' edit_request) ''code_snippets'' ! 0)
        ''shareToken'' = Some (JStr ''V1StGXR8_Z5j'')
   \<and> (snd (patch_snippet clock snippets ''V1StGXR8_Z5j'' edit_request) ''code_snippets'' ! 0)
        ''isPublic'' = Some (JBool True)
   \<and> patch_snippet clock snippets ''zzzzzzzzzzzz'' edit_request
        = (Status 404 (Text ''Snippet not found''), snippets)"
proof -
  let ?hit = "patch_snippet clock snippets ''V1StGXR8_Z5j'' edit_request"
  let ?miss = "patch_snippet clock snippets ''zzzzzzzzzzzz'' edit_request"
  have "?hit = (fst ?hit, snd ?hit)" by simp
  from patch_snippet_frame [OF this]
  have frame: "\<forall>i < length (snippets (tname codeSnippets)). \<forall>k.
             k \<notin> {''content'', ''title'', ''description'', ''language'', ''updatedAt''} \<longrightarrow>
             (snd ?hit (tname codeSnippets) ! i) k = (snippets (tname codeSnippets) ! i) k"
    by (elim conjE)
  then have kept: "k \<notin> {''content'', ''title'', ''description'', ''language'', ''updatedAt''} \<Longrightarrow>
             (snd ?hit ''code_snippets'' ! 0) k = fizzbuzz k" for k
    by (simp add: tname_simps snippets_rows)
  have token: "(snd ?hit ''code_snippets'' ! 0) ''shareToken'' = Some (JStr ''V1StGXR8_Z5j'')"
    using kept [of "''shareToken''"] by (simp add: fizzbuzz_fields)
  have public: "(snd ?hit ''code_snippets'' ! 0) ''isPublic'' = Some (JBool True)"
    using kept [of "''isPublic''"] by (simp add: fizzbuzz_fields)
  have none: "\<forall>r \<in> set (snippets (tname codeSnippets)). r ''shareToken'' \<noteq> Some (JStr ''zzzzzzzzzzzz'')"
    by (simp add: tname_simps snippets_rows fizzbuzz_fields)
  have "?miss = (fst ?miss, snd ?miss)" by simp
  from patch_snippet_frame [OF this]
  have "(\<forall>r \<in> set (snippets (tname codeSnippets)). r ''shareToken'' \<noteq> Some (JStr ''zzzzzzzzzzzz'')) \<longrightarrow>
          fst ?miss = Status 404 (Text ''Snippet not found'') \<and> status_of (fst ?miss) = 404
          \<and> snd ?miss = snippets"
    by (elim conjE)
  with none have "fst ?miss = Status 404 (Text ''Snippet not found'') \<and> snd ?miss = snippets"
    by simp
  then have miss: "?miss = (Status 404 (Text ''Snippet not found''), snippets)"
    by (simp add: prod_eq_iff)
  from patch_fizzbuzz token public miss show ?thesis
    by simp
qed

section \<open>POST /api/snippets\<close>

lemma snippet_schema_keys:
  "k \<in> {''shareToken'', ''id'', ''createdAt'', ''updatedAt''} \<Longrightarrow>
     k \<notin> set (map zkey insertCodeSnippetSchema)"
  unfolding insertCodeSnippetSchema_def by (rule omit_keys) auto

lemma length_nanoid: "length (nanoid e n) = n"
  by (simp add: nanoid_def)

lemma distinct_snippet_columns: "distinct (map cname (columns codeSnippets))"
  by (simp add: codeSnippets_def column_defs)

text \<open>The row that is built from a payload the validator has passed.\<close>

lemma build_snippet:
  assumes "parse insertCodeSnippetSchema body = Inr data"
  shows "\<exists>r. build_row e (columns codeSnippets) (data(''shareToken'' \<mapsto> JStr tok)) = Inr r
            \<and> r ''shareToken'' = Some (JStr tok)
            \<and> r ''id'' = Some (JStr (randomUUID e))
            \<and> r ''createdAt'' = Some (JDate (now e))
            \<and> r ''updatedAt'' = Some (JDate (now e))"
proof -
  let ?vals = "data(''shareToken'' \<mapsto> JStr tok)"
  let ?server = "{''shareToken'', ''id'', ''createdAt'', ''updatedAt''}"
  note p = parse_Inr [OF assms]
  have data_server: "data k = None" if "k \<in> ?server" for k
    using snippet_schema_keys [OF that] by (simp add: p(1))
  have cells: "\<exists>x. cell e c (?vals (cname c)) = Inr x" if c: "c \<in> set (columns codeSnippets)" for c
  proof (cases "cname c \<in> ?server")
    case True
    with c data_server [of "cname c"] show ?thesis
      by (auto simp: codeSnippets_def column_defs cell_def default_value_def)
  next
    case False
    let ?f = "\<lparr>zkey = cname c, ztype = ctype c, nullable = \<not> not_null c,
                      optional = (\<not> not_null c \<or> dflt_of c \<noteq> NoDefault)\<rparr>"
    from False c have f: "?f \<in> set insertCodeSnippetSchema"
      by (auto simp: insertCodeSnippetSchema_def omit_def createInsertSchema_def)
    then have "zkey ?f \<in> zkey ` set insertCodeSnippetSchema"
      by (rule imageI)
    then have key: "cname c \<in> set (map zkey insertCodeSnippetSchema)"
      by simp
    from f p(2) have "field_ok ?f (body (cname c))" by force
    moreover from False key have "?vals (cname c) = body (cname c)"
      by (simp add: p(1))
    moreover from c have "ctype c \<noteq> Integer"
      by (auto simp: codeSnippets_def column_defs)
    ultimately show ?thesis
      using cell_of_field_ok [of c "body (cname c)" e] by simp
  qed
  then obtain r where r: "build_row e (columns codeSnippets) ?vals = Inr r"
    using build_row_total [of "columns codeSnippets" e ?vals] by blast
  note cell_at = build_row_cell [OF r distinct_snippet_columns]
  have "r ''shareToken'' = Some (JStr tok)"
    using cell_at [of "unique (notNull (col Text_t ''shareToken''))"]
    by (auto simp: codeSnippets_def column_defs cell_def)
  moreover have "r ''id'' = Some (JStr (randomUUID e))"
    using cell_at [of "defaultRandom (primaryKey (col Uuid ''id''))"] data_server [of "''id''"]
    by (auto simp: codeSnippets_def column_defs cell_def default_value_def)
  moreover have "r ''createdAt'' = Some (JDate (now e))"
    using cell_at [of "notNull (defaultNow (col Timestamp ''createdAt''))"]
      data_server [of "''createdAt''"]
    by (auto simp: codeSnippets_def column_defs cell_def default_value_def)
  moreover have "r ''updatedAt'' = Some (JDate (now e))"
    using cell_at [of "notNull (defaultNow (col Timestamp ''updatedAt''))"]
      data_server [of "''updatedAt''"]
    by (auto simp: codeSnippets_def column_defs cell_def default_value_def)
  ultimately show ?thesis
    using r by blast
qed

lemma snippet_constraints:
  assumes "r ''id'' = Some (JStr ident)" and "r ''shareToken'' = Some (JStr tok)"
  shows "unique_ok (columns codeSnippets) rows r
           \<longleftrightarrow> (\<forall>r' \<in> set rows. r' ''id'' \<noteq> Some (JStr ident) \<and> r' ''shareToken'' \<noteq> Some (JStr tok))"
    and "foreign_ok d (columns codeSnippets) r"
  using assms
  by (auto simp: unique_ok_def foreign_ok_def codeSnippets_def column_defs list_all_iff)

text \<open>
  Claim C4. A creation request whose payload passes the validator (and for which the
  identifier and the token that are drawn are not taken) is answered 200 with the row
  that is stored at the end of the snippets table; its share token is the 12 characters
  that \<open>nanoid(12)\<close> generated, and its \<open>id\<close>, \<open>createdAt\<close> and \<open>updatedAt\<close> are the
  store's. Whatever the payload says for \<open>shareToken\<close>, \<open>id\<close>, \<open>createdAt\<close> or
  \<open>updatedAt\<close> has no effect: the handler does the same with and without it. A payload
  that fails validation is answered 400 and the store is left as it was.
\<close>

theorem post_snippets_server_token:
  "(\<forall>data. parse insertCodeSnippetSchema body = Inr data
        \<and> (\<forall>r \<in> set (d (tname codeSnippets)).
               r ''id'' \<noteq> Some (JStr (randomUUID e))
             \<and> r ''shareToken'' \<noteq> Some (JStr (nanoid e 12)))
      \<longrightarrow> (\<exists>snippet.
             post_snippets e d body
               = (Json snippet, d(tname codeSnippets := d (tname codeSnippets) @ [snippet]))
           \<and> snippet ''shareToken'' = Some (JStr (nanoid e 12))
           \<and> length (nanoid e 12) = 12
           \<and> snippet ''id'' = Some (JStr (randomUUID e))
           \<and> snippet ''createdAt'' = Some (JDate (now e))
           \<and> snippet ''updatedAt'' = Some (JDate (now e))))
   \<and> (\<forall>k v. k \<in> {''shareToken'', ''id'', ''createdAt'', ''updatedAt''} \<longrightarrow>
          post_snippets e d (body(k := v)) = post_snippets e d body)
   \<and> (\<forall>err. parse insertCodeSnippetSchema body = Inl err \<longrightarrow>
          post_snippets e d body = (Status 400 (MessageOf err), d))"
proof (intro conjI allI impI)
  fix data
  assume a: "parse insertCodeSnippetSchema body = Inr data
        \<and> (\<forall>r \<in> set (d (tname codeSnippets)).
               r ''id'' \<noteq> Some (JStr (randomUUID e))
             \<and> r ''shareToken'' \<noteq> Some (JStr (nanoid e 12)))"
  then have p: "parse insertCodeSnippetSchema body = Inr data" by simp
  from build_snippet [OF p, of e "nanoid e 12"] obtain r where
    r: "build_row e (columns codeSnippets) (data(''shareToken'' \<mapsto> JStr (nanoid e 12))) = Inr r"
    and tok: "r ''shareToken'' = Some (JStr (nanoid e 12))"
    and ident: "r ''id'' = Some (JStr (randomUUID e))"
    and created: "r ''createdAt'' = Some (JDate (now e))"
    and updated: "r ''updatedAt'' = Some (JDate (now e))"
    by (elim exE conjE)
  from a have "unique_ok (columns codeSnippets) (d (tname codeSnippets)) r"
    by (simp add: snippet_constraints(1) [OF ident tok])
  with r have "insert_values e d codeSnippets (data(''shareToken'' \<mapsto> JStr (nanoid e 12)))
                 = Inr (r, d(tname codeSnippets := d (tname codeSnippets) @ [r]))"
    by (simp add: insert_values_def snippet_constraints(2) [OF ident tok])
  with p have "post_snippets e d body
                 = (Json r, d(tname codeSnippets := d (tname codeSnippets) @ [r]))"
    by (simp add: post_snippets_def)
  with tok ident created updated
  show "\<exists>snippet.
             post_snippets e d body
               = (Json snippet, d(tname codeSnippets := d (tname codeSnippets) @ [snippet]))
           \<and> snippet ''shareToken'' = Some (JStr (nanoid e 12))
           \<and> length (nanoid e 12) = 12
           \<and> snippet ''id'' = Some (JStr (randomUUID e))
           \<and> snippet ''createdAt'' = Some (JDate (now e))
           \<and> snippet ''updatedAt'' = Some (JDate (now e))"
    by (intro exI [of _ r]) (simp add: length_nanoid)
next
  fix k :: string and v
  assume "k \<in> {''shareToken'', ''id'', ''createdAt'', ''updatedAt''}"
  then have "parse insertCodeSnippetSchema (body(k := v)) = parse insertCodeSnippetSchema body"
    by (intro parse_ignores snippet_schema_keys)
  then show "post_snippets e d (body(k := v)) = post_snippets e d body"
    by (simp add: post_snippets_def)
next
  fix err
  assume "parse insertCodeSnippetSchema body = Inl err"
  then show "post_snippets e d body = (Status 400 (MessageOf err), d)"
    by (simp add: post_snippets_def)
qed

lemma parse_new_snippet:
  "parse insertCodeSnippetSchema new_snippet_request
     = Inr (\<lambda>k. if k \<in> set (map zkey insertCodeSnippetSchema) then new_snippet_request k else None)"
  by (rule parse_ok)
     (simp add: insertCodeSnippetSchema_def omit_def createInsertSchema_def
        codeSnippets_def column_defs field_ok_def new_snippet_request_def)

lemma parse_untitled: "parse insertCodeSnippetSchema untitled_request = Inl ZodError"
  by (simp add: parse_def insertCodeSnippetSchema_def omit_def createInsertSchema_def
        codeSnippets_def column_defs field_ok_def untitled_request_def)

lemma nanoid_clock: "nanoid clock 12 = ''a60JYSGjze24''"
  by code_simp

lemma randomUUID_clock: "randomUUID clock = ''dddddddd-0000-4000-8000-000000000009''"
  by (simp add: clock_def)

theorem post_snippets_server_token_witness:
  "status_of (fst (post_snippets clock snippets new_snippet_request)) = 200
   \<and> (last (snd (post_snippets clock snippets new_snippet_request) ''code_snippets''))
        ''shareToken'' = Some (JStr ''a60JYSGjze24'')
   \<and> post_snippets clock snippets (new_snippet_request(''shareToken'' \<mapsto> JStr ''mine''))
        = post_snippets clock snippets new_snippet_request
   \<and> post_snippets clock snippets untitled_request = (Status 400 (MessageOf ZodError), snippets)"
proof -
  note general = post_snippets_server_token [of _ snippets clock]
  let ?data = "\<lambda>k. if k \<in> set (map zkey insertCodeSnippetSchema) then new_snippet_request k else None"
  have ok: "parse insertCodeSnippetSchema new_snippet_request = Inr ?data
        \<and> (\<forall>r \<in> set (snippets (tname codeSnippets)).
               r ''id'' \<noteq> Some (JStr (randomUUID clock))
             \<and> r ''shareToken'' \<noteq> Some (JStr (nanoid clock 12)))"
    by (simp add: parse_new_snippet tname_simps snippets_rows fizzbuzz_fields nanoid_clock
          randomUUID_clock snippet_a_def)
  from general [of new_snippet_request, THEN conjunct1, THEN spec, THEN mp, OF ok]
  obtain created where
    r: "post_snippets clock snippets new_snippet_request
          = (Json created, snippets(tname codeSnippets := snippets (tname codeSnippets) @ [created]))"
    and t: "created ''shareToken'' = Some (JStr (nanoid clock 12))"
    by (elim exE conjE)
  from r t have 1: "status_of (fst (post_snippets clock snippets new_snippet_request)) = 200"
    and 2: "(last (snd (post_snippets clock snippets new_snippet_request) ''code_snippets''))
        ''shareToken'' = Some (JStr ''a60JYSGjze24'')"
    by (simp_all add: tname_simps nanoid_clock)
  from general [of new_snippet_request, THEN conjunct2, THEN conjunct1, THEN spec, THEN spec,
      of "''shareToken''" "Some (JStr ''mine'')"]
  have 3: "post_snippets clock snippets (new_snippet_request(''shareToken'' \<mapsto> JStr ''mine''))
        = post_snippets clock snippets new_snippet_request"
    by simp
  from general [of untitled_request, THEN conjunct2, THEN conjunct2, THEN spec, THEN mp,
      OF parse_untitled]
  have 4: "post_snippets clock snippets untitled_request = (Status 400 (MessageOf ZodError), snippets)" .
  from 1 2 3 4 show ?thesis by simp
qed

section \<open>GET /api/snippets/:shareToken\<close>

text \<open>
  Claim C5. If some stored snippet has the share token of the request, the handler
  answers with such a row (the first one in the table; the column is unique); if none
  has it, the handler answers 404 "Snippet not found", and no other status. The store is
  left as it was in both cases.
\<close>

theorem get_snippet_found_or_404:
  "((\<exists>r \<in> set (d (tname codeSnippets)). r ''shareToken'' = Some (JStr tok)) \<longrightarrow>
      (\<exists>r \<in> set (d (tname codeSnippets)).
          r ''shareToken'' = Some (JStr tok) \<and> get_snippet d tok = (Json r, d)))
   \<and> ((\<forall>r \<in> set (d (tname codeSnippets)). r ''shareToken'' \<noteq> Some (JStr tok)) \<longrightarrow>
          get_snippet d tok = (Status 404 (Text ''Snippet not found''), d)
          \<and> status_of (fst (get_snippet d tok)) = 404)"
proof -
  let ?hit = "filter (\<lambda>r. r ''shareToken'' = Some (JStr tok)) (d ''code_snippets'')"
  have found: "\<exists>r \<in> set (d (tname codeSnippets)).
      r ''shareToken'' = Some (JStr tok) \<and> get_snippet d tok = (Json r, d)"
    if "\<exists>r \<in> set (d (tname codeSnippets)). r ''shareToken'' = Some (JStr tok)"
  proof -
    from that have "?hit \<noteq> []"
      by (auto simp: tname_simps filter_empty_conv)
    then obtain r rs where hit: "?hit = r # rs"
      by (cases ?hit) auto
    then have "r \<in> set ?hit" by simp
    then have "r \<in> set (d ''code_snippets'')" and "r ''shareToken'' = Some (JStr tok)"
      by auto
    moreover have "get_snippet d tok = (Json r, d)"
      by (simp add: get_snippet_def select_shareToken limit_def hit)
    ultimately show ?thesis
      by (auto simp: tname_simps)
  qed
  have missing: "get_snippet d tok = (Status 404 (Text ''Snippet not found''), d)
          \<and> status_of (fst (get_snippet d tok)) = 404"
    if "\<forall>r \<in> set (d (tname codeSnippets)). r ''shareToken'' \<noteq> Some (JStr tok)"
  proof -
    from that have "?hit = []"
      by (auto simp: tname_simps filter_empty_conv)
    then show ?thesis
      by (simp add: get_snippet_def select_shareToken limit_def)
  qed
  from found missing show ?thesis by blast
qed

theorem get_snippet_found_or_404_witness:
  "get_snippet snippets ''V1StGXR8_Z5j'' = (Json fizzbuzz, snippets)
   \<and> get_snippet snippets ''zzzzzzzzzzzz'' = (Status 404 (Text ''Snippet not found''), snippets)"
proof -
  have a: "\<exists>r \<in> set (snippets (tname codeSnippets)). r ''shareToken'' = Some (JStr ''V1StGXR8_Z5j'')"
    by (simp add: snippets_rows fizzbuzz_fields tname_simps)
  have b: "\<forall>r \<in> set (snippets (tname codeSnippets)). r ''shareToken'' \<noteq> Some (JStr ''zzzzzzzzzzzz'')"
    by (simp add: snippets_rows fizzbuzz_fields tname_simps)
  from get_snippet_found_or_404 [of snippets "''V1StGXR8_Z5j''"] a
  have "\<exists>r \<in> set (snippets (tname codeSnippets)).
          get_snippet snippets ''V1StGXR8_Z5j'' = (Json r, snippets)"
    by blast
  then have 1: "get_snippet snippets ''V1StGXR8_Z5j'' = (Json fizzbuzz, snippets)"
    by (simp add: snippets_rows tname_simps)
  from get_snippet_found_or_404 [of snippets "''zzzzzzzzzzzz''"] b
  have 2: "get_snippet snippets ''zzzzzzzzzzzz'' = (Status 404 (Text ''Snippet not found''), snippets)"
    by blast
  from 1 2 show ?thesis by simp
qed

section \<open>GET /api/snippets/:snippetId/messages\<close>

lemma chat_rows: "chat ''snippet_messages'' = [hello, again, later]"
  by (simp add: chat_def)

lemma chat_snippetId:
  "hello ''snippetId'' = Some (JStr snippet_a)"
  "again ''snippetId'' = Some (JStr snippet_a)"
  "later ''snippetId'' = Some (JStr snippet_a)"
  by (simp_all add: hello_def again_def later_def message_def)

lemma chat_createdAt:
  "hello ''createdAt'' = Some (JDate 1000)"
  "again ''createdAt'' = Some (JDate 1000)"
  "later ''createdAt'' = Some (JDate 2000)"
  by (simp_all add: hello_def again_def later_def message_def)

lemma select_chat:
  "select_from chat snippetMessages (Some (Eq ''snippetId'' snippet_a)) = Inr [hello, again, later]"
  by (simp add: select_snippetId is_uuid_snippet_a lower_snippet_a chat_rows chat_snippetId)

lemma chat_rank:
  "desc_rank ''createdAt'' hello = Some (- 1000)"
  "desc_rank ''createdAt'' again = Some (- 1000)"
  "desc_rank ''createdAt'' later = Some (- 2000)"
  by (simp_all add: desc_rank_def chat_createdAt)

lemma order_chat: "orderBy_desc ''createdAt'' [hello, again, later] = [later, hello, again]"
  by (simp add: orderBy_desc_def chat_rank)

lemma get_messages_chat: "get_messages chat snippet_a = (Json [later, hello, again], chat)"
  by (simp add: get_messages_def select_chat order_chat limit_def)

text \<open>
  Claim C6, as stated, asks for a strictly descending order of creation times. Two
  messages of one snippet can carry the same creation time (the column is neither unique
  nor part of a key, and the statement orders by nothing else); the handler returns
  both, side by side. Here \<open>hello\<close> and \<open>again\<close> were both created at time 1000.
\<close>

theorem get_messages_strictly_descending_counterexample:
  "get_messages chat snippet_a = (Json [later, hello, again], chat)
   \<and> hello ''createdAt'' = again ''createdAt''
   \<and> \<not> sorted_wrt (strictly_newer ''createdAt'') [later, hello, again]"
  by (simp add: get_messages_chat chat_createdAt strictly_newer_def)

text \<open>
  Claim C6, amended. For the id of a snippet (a uuid), the handler answers 200 with at
  most 100 rows of the messages table; each belongs to that snippet; they are ordered
  newest first, where equal creation times may follow one another and a message without
  a creation time stands before the dated ones; and they are the most recent ones: with
  the matching rows that were left out (\<open>rest\<close>, empty unless 100 rows are returned) they
  make up exactly the snippet's messages, and every returned row may stand before every
  row left out. The store is left as it was.
\<close>

theorem get_messages_newest_first:
  assumes "is_uuid sid"
  shows "\<exists>rows rest.
           get_messages d sid = (Json rows, d)
         \<and> length rows \<le> 100
         \<and> (\<forall>r \<in> set rows. r \<in> set (d (tname snippetMessages))
                \<and> r ''snippetId'' = Some (JStr (toLowerCase sid)))
         \<and> sorted_wrt (precedes ''createdAt'') rows
         \<and> mset (rows @ rest)
             = mset (filter (\<lambda>r. r ''snippetId'' = Some (JStr (toLowerCase sid)))
                        (d (tname snippetMessages)))
         \<and> (length rows < 100 \<longrightarrow> rest = [])
         \<and> (\<forall>x \<in> set rows. \<forall>y \<in> set rest. precedes ''createdAt'' x y)"
proof -
  let ?all = "filter (\<lambda>r. r ''snippetId'' = Some (JStr (toLowerCase sid))) (d ''snippet_messages'')"
  let ?sorted = "orderBy_desc ''createdAt'' ?all"
  let ?rows = "take 100 ?sorted" and ?rest = "drop 100 ?sorted"
  have resp: "get_messages d sid = (Json ?rows, d)"
    using assms by (simp add: get_messages_def select_snippetId limit_def)
  have len: "length ?rows \<le> 100" by simp
  have members: "\<forall>r \<in> set ?rows. r \<in> set (d ''snippet_messages'')
                \<and> r ''snippetId'' = Some (JStr (toLowerCase sid))"
  proof
    fix r assume "r \<in> set ?rows"
    then have "r \<in> set ?sorted" by (rule in_set_takeD)
    then show "r \<in> set (d ''snippet_messages'')
                \<and> r ''snippetId'' = Some (JStr (toLowerCase sid))"
      by (simp add: set_orderBy_desc)
  qed
  have srt: "sorted_wrt (precedes ''createdAt'') ?rows"
    by (simp add: sorted_orderBy_desc sorted_wrt_take)
  have perm: "mset (?rows @ ?rest) = mset ?all"
    by (simp add: mset_orderBy_desc)
  have short: "length ?rows < 100 \<longrightarrow> ?rest = []"
    by auto
  have top: "\<forall>x \<in> set ?rows. \<forall>y \<in> set ?rest. precedes ''createdAt'' x y"
    by (rule limit_split) (rule sorted_orderBy_desc)
  show ?thesis
    unfolding tname_simps
    apply (rule exI [of _ ?rows], rule exI [of _ ?rest])
    using resp len members srt perm short top
    apply (intro conjI)
    apply assumption+
    done
qed

theorem get_messages_newest_first_witness:
  "is_uuid snippet_a
   \<and> get_messages chat snippet_a = (Json [later, hello, again], chat)
   \<and> sorted_wrt (precedes ''createdAt'') [later, hello, again]"
proof -
  from get_messages_newest_first [OF is_uuid_snippet_a, of chat]
  have "sorted_wrt (precedes ''createdAt'') [later, hello, again]"
    unfolding get_messages_chat by clarsimp
  then show ?thesis
    by (simp add: get_messages_chat is_uuid_snippet_a)
qed

section \<open>GET /api/coding-challenges\<close>

lemma challenges_rows:
  "challenges ''coding_challenges'' = [easy_javascript, hard_python, easy_python]"
  by (simp add: challenges_def)

lemma challenge_fields:
  "easy_python ''difficulty'' = Some (JStr ''easy'')"
  "easy_python ''language'' = Some (JStr ''python'')"
  "hard_python ''difficulty'' = Some (JStr ''hard'')"
  "hard_python ''language'' = Some (JStr ''python'')"
  "easy_javascript ''difficulty'' = Some (JStr ''easy'')"
  "easy_javascript ''language'' = Some (JStr ''javascript'')"
  by (simp_all add: easy_python_def hard_python_def easy_javascript_def challenge_def)

lemma easy_python_query_simps:
  "easy_python_query ''difficulty'' = Some ''easy''"
  "easy_python_query ''language'' = Some ''python''"
  by (simp_all add: easy_python_query_def)

lemma list_easy_python:
  "list_challenges challenges easy_python_query = (Json [easy_python], challenges)"
  by (simp add: list_challenges_def Let_def select_challenges limit_def easy_python_query_simps
        challenges_rows asked_def challenge_fields orderBy_desc_def
        del: length_greater_0_conv)

text \<open>
  Claim C7. The handler answers 200 with at most 50 rows of the challenges table,
  ordered newest first by creation time. A filter is applied when its query parameter
  is supplied with a value (the handler tests the parameter's truthiness, so a parameter
  that is missing or empty is absent): then every returned row has exactly that
  difficulty, respectively that language, and with both supplied every row matches
  both. A filter that is absent is not applied: the returned rows are the newest of all
  rows that pass the filters asked for (with the rows left out, \<open>rest\<close>, they make up
  exactly those rows). The store is left as it was.
\<close>

theorem list_challenges_filtered_newest_first:
  "\<exists>rows rest.
        list_challenges d q = (Json rows, d)
      \<and> length rows \<le> 50
      \<and> sorted_wrt (precedes ''createdAt'') rows
      \<and> (\<forall>r \<in> set rows. r \<in> set (d (tname codingChallenges)))
      \<and> (\<forall>s. q ''difficulty'' = Some s \<and> s \<noteq> [] \<longrightarrow>
             (\<forall>r \<in> set rows. r ''difficulty'' = Some (JStr s)))
      \<and> (\<forall>s. q ''language'' = Some s \<and> s \<noteq> [] \<longrightarrow>
             (\<forall>r \<in> set rows. r ''language'' = Some (JStr s)))
      \<and> mset (rows @ rest)
           = mset (filter (\<lambda>r. asked (q ''difficulty'') (r ''difficulty'')
                                 \<and> asked (q ''language'') (r ''language''))
                     (d (tname codingChallenges)))
      \<and> (length rows < 50 \<longrightarrow> rest = [])
      \<and> (\<forall>x \<in> set rows. \<forall>y \<in> set rest. precedes ''createdAt'' x y)"
proof -
  let ?all = "filter (\<lambda>r. asked (q ''difficulty'') (r ''difficulty'')
                           \<and> asked (q ''language'') (r ''language'')) (d ''coding_challenges'')"
  let ?sorted = "orderBy_desc ''createdAt'' ?all"
  let ?rows = "take 50 ?sorted" and ?rest = "drop 50 ?sorted"
  have resp: "list_challenges d q = (Json ?rows, d)"
    by (simp add: list_challenges_def Let_def select_challenges limit_def del: length_greater_0_conv)
  have len: "length ?rows \<le> 50" by simp
  have sub: "set ?rows \<subseteq> set ?all"
    using set_take_subset [of 50 ?sorted] by (simp add: set_orderBy_desc)
  have members: "\<forall>r \<in> set ?rows. r \<in> set (d ''coding_challenges'')"
    using sub by auto
  have dif: "\<forall>s. q ''difficulty'' = Some s \<and> s \<noteq> [] \<longrightarrow>
             (\<forall>r \<in> set ?rows. r ''difficulty'' = Some (JStr s))"
    using sub by (auto simp: asked_def)
  have lang: "\<forall>s. q ''language'' = Some s \<and> s \<noteq> [] \<longrightarrow>
             (\<forall>r \<in> set ?rows. r ''language'' = Some (JStr s))"
    using sub by (auto simp: asked_def)
  have srt: "sorted_wrt (precedes ''createdAt'') ?rows"
    by (simp add: sorted_orderBy_desc sorted_wrt_take)
  have perm: "mset (?rows @ ?rest) = mset ?all"
    by (simp add: mset_orderBy_desc)
  have short: "length ?rows < 50 \<longrightarrow> ?rest = []"
    by auto
  have top: "\<forall>x \<in> set ?rows. \<forall>y \<in> set ?rest. precedes ''createdAt'' x y"
    by (rule limit_split) (rule sorted_orderBy_desc)
  show ?thesis
    unfolding tname_simps
    apply (rule exI [of _ ?rows], rule exI [of _ ?rest])
    using resp len srt members dif lang perm short top
    apply (intro conjI)
    apply assumption+
    done
qed

theorem list_challenges_filtered_newest_first_witness:
  "list_challenges challenges easy_python_query = (Json [easy_python], challenges)
   \<and> easy_python ''difficulty'' = Some (JStr ''easy'')
   \<and> easy_python ''language'' = Some (JStr ''python'')"
proof -
  from list_challenges_filtered_newest_first [of challenges easy_python_query]
  have "easy_python ''difficulty'' = Some (JStr ''easy'')
        \<and> easy_python ''language'' = Some (JStr ''python'')"
    unfolding list_easy_python easy_python_query_simps
    by clarsimp
  then show ?thesis
    by (simp add: list_easy_python)
qed

section \<open>GET /api/users/:userId/stats\<close>

text \<open>The object the handler makes up for a user without a stats row.\<close>

lemma zero_stats_fits:
  assumes "is_uuid uid"
  shows "parse (createInsertSchema userPracticeStats)
           (Map.empty(''userId'' \<mapsto> JStr uid, ''totalChallenges'' \<mapsto> JNum 0,
              ''totalSubmissions'' \<mapsto> JNum 0, ''averageScore'' \<mapsto> JStr ''0.00'',
              ''totalPoints'' \<mapsto> JNum 0, ''currentStreak'' \<mapsto> JNum 0,
              ''longestStreak'' \<mapsto> JNum 0))
         = Inr (Map.empty(''userId'' \<mapsto> JStr uid, ''totalChallenges'' \<mapsto> JNum 0,
              ''totalSubmissions'' \<mapsto> JNum 0, ''averageScore'' \<mapsto> JStr ''0.00'',
              ''totalPoints'' \<mapsto> JNum 0, ''currentStreak'' \<mapsto> JNum 0,
              ''longestStreak'' \<mapsto> JNum 0))"
  using assms
  by (auto simp: parse_def createInsertSchema_def userPracticeStats_def column_defs field_ok_def
        fun_eq_iff)

lemma get_zero_stats_b: "get_user_stats practice user_b = (Json (zero_stats user_b), practice)"
  by (simp add: get_user_stats_def select_userId is_uuid_user_b lower_user_b limit_def
        practice_stats stats_a_userId user_a_neq_user_b zero_stats_def)

text \<open>
  Claim C8, as stated, has the object that is made up for a user without a row match
  the shape of the stats schema. A row of the stats table has thirteen columns, and
  \<open>updatedAt\<close> among them is NOT NULL; the object has seven properties and no
  \<open>updatedAt\<close>, so it is not what \<open>createSelectSchema\<close> derives from the table as the
  shape of a row. Here for user b, who has no row in the sample store.
\<close>

theorem get_user_stats_shape_counterexample:
  "get_user_stats practice user_b = (Json (zero_stats user_b), practice)
   \<and> zero_stats user_b ''updatedAt'' = None
   \<and> length (columns userPracticeStats) = 13
   \<and> parse (createSelectSchema userPracticeStats) (zero_stats user_b) = Inl ZodError"
  by (simp add: get_zero_stats_b)
     (simp add: zero_stats_def parse_def createSelectSchema_def userPracticeStats_def column_defs
        field_ok_def)

text \<open>
  Claim C8, amended. For a user id (a uuid):
  \<^item> when no stats row is stored for it, the handler answers 200, never 404, with an
    object that echoes the requested \<open>userId\<close> and holds 0 for \<open>totalChallenges\<close>,
    \<open>totalSubmissions\<close>, \<open>totalPoints\<close>, \<open>currentStreak\<close> and \<open>longestStreak\<close> and
    "0.00" for \<open>averageScore\<close>, and nothing else: these seven properties are columns of
    the stats table with values of their types (the object passes the validator that
    \<open>createInsertSchema\<close> derives from the table, which drops none of them); the other
    six columns of a stats row are absent from it;
  \<^item> when a row is stored for it, the handler answers 200 with that row as it is stored.
  The store is left as it was in both cases: nothing is persisted.
\<close>

theorem get_user_stats_zero_default:
  assumes "is_uuid uid"
  shows "((\<forall>r \<in> set (d (tname userPracticeStats)). r ''userId'' \<noteq> Some (JStr (toLowerCase uid))) \<longrightarrow>
            (\<exists>zero. get_user_stats d uid = (Json zero, d)
               \<and> status_of (fst (get_user_stats d uid)) = 200
               \<and> zero ''userId'' = Some (JStr uid)
               \<and> zero ''totalChallenges'' = Some (JNum 0)
               \<and> zero ''totalSubmissions'' = Some (JNum 0)
               \<and> zero ''averageScore'' = Some (JStr ''0.00'')
               \<and> zero ''totalPoints'' = Some (JNum 0)
               \<and> zero ''currentStreak'' = Some (JNum 0)
               \<and> zero ''longestStreak'' = Some (JNum 0)
               \<and> dom zero = {''userId'', ''totalChallenges'', ''totalSubmissions'',
                     ''averageScore'', ''totalPoints'', ''currentStreak'', ''longestStreak''}
               \<and> parse (createInsertSchema userPracticeStats) zero = Inr zero))
       \<and> ((\<exists>r \<in> set (d (tname userPracticeStats)). r ''userId'' = Some (JStr (toLowerCase uid))) \<longrightarrow>
            (\<exists>r \<in> set (d (tname userPracticeStats)).
                r ''userId'' = Some (JStr (toLowerCase uid))
              \<and> get_user_stats d uid = (Json r, d)
              \<and> status_of (fst (get_user_stats d uid)) = 200))"
proof -
  let ?hit = "filter (\<lambda>r. r ''userId'' = Some (JStr (toLowerCase uid))) (d ''user_practice_stats'')"
  let ?zero = "Map.empty(''userId'' \<mapsto> JStr uid, ''totalChallenges'' \<mapsto> JNum 0,
              ''totalSubmissions'' \<mapsto> JNum 0, ''averageScore'' \<mapsto> JStr ''0.00'',
              ''totalPoints'' \<mapsto> JNum 0, ''currentStreak'' \<mapsto> JNum 0,
              ''longestStreak'' \<mapsto> JNum 0)"
  have absent: "\<exists>zero. get_user_stats d uid = (Json zero, d)
               \<and> status_of (fst (get_user_stats d uid)) = 200
               \<and> zero ''userId'' = Some (JStr uid)
               \<and> zero ''totalChallenges'' = Some (JNum 0)
               \<and> zero ''totalSubmissions'' = Some (JNum 0)
               \<and> zero ''averageScore'' = Some (JStr ''0.00'')
               \<and> zero ''totalPoints'' = Some (JNum 0)
               \<and> zero ''currentStreak'' = Some (JNum 0)
               \<and> zero ''longestStreak'' = Some (JNum 0)
               \<and> dom zero = {''userId'', ''totalChallenges'', ''totalSubmissions'',
                     ''averageScore'', ''totalPoints'', ''currentStreak'', ''longestStreak''}
               \<and> parse (createInsertSchema userPracticeStats) zero = Inr zero"
    if "\<forall>r \<in> set (d (tname userPracticeStats)). r ''userId'' \<noteq> Some (JStr (toLowerCase uid))"
  proof -
    from that have "?hit = []"
      by (auto simp: tname_simps filter_empty_conv)
    then have resp: "get_user_stats d uid = (Json ?zero, d)"
      using assms by (simp add: get_user_stats_def select_userId limit_def)
    have dom: "dom ?zero = {''userId'', ''totalChallenges'', ''totalSubmissions'',
                     ''averageScore'', ''totalPoints'', ''currentStreak'', ''longestStreak''}"
      by auto
    show ?thesis
      apply (rule exI [of _ ?zero])
      apply (simp only: resp dom zero_stats_fits [OF assms])
      apply simp
      done
  qed
  have present: "\<exists>r \<in> set (d (tname userPracticeStats)).
                r ''userId'' = Some (JStr (toLowerCase uid))
              \<and> get_user_stats d uid = (Json r, d)
              \<and> status_of (fst (get_user_stats d uid)) = 200"
    if "\<exists>r \<in> set (d (tname userPracticeStats)). r ''userId'' = Some (JStr (toLowerCase uid))"
  proof -
    from that have "?hit \<noteq> []"
      by (auto simp: tname_simps filter_empty_conv)
    then obtain r rs where hit: "?hit = r # rs"
      by (cases ?hit) auto
    then have "r \<in> set ?hit" by simp
    then have "r \<in> set (d ''user_practice_stats'')"
      and "r ''userId'' = Some (JStr (toLowerCase uid))"
      by auto
    moreover have "get_user_stats d uid = (Json r, d)"
      using assms by (simp add: get_user_stats_def select_userId limit_def hit)
    ultimately show ?thesis
      by (auto simp: tname_simps)
  qed
  from absent present show ?thesis by blast
qed

theorem get_user_stats_zero_default_witness:
  "is_uuid user_b \<and> is_uuid user_a
   \<and> fst (get_user_stats practice user_b)
       = Json (Map.empty(''userId'' \<mapsto> JStr user_b, ''totalChallenges'' \<mapsto> JNum 0,
              ''totalSubmissions'' \<mapsto> JNum 0, ''averageScore'' \<mapsto> JStr ''0.00'',
              ''totalPoints'' \<mapsto> JNum 0, ''currentStreak'' \<mapsto> JNum 0,
              ''longestStreak'' \<mapsto> JNum 0))
   \<and> snd (get_user_stats practice user_b) = practice
   \<and> get_user_stats practice user_a = (Json stats_a, practice)"
proof -
  have none: "\<forall>r \<in> set (practice (tname userPracticeStats)).
                r ''userId'' \<noteq> Some (JStr (toLowerCase user_b))"
    by (simp add: tname_simps practice_stats stats_a_userId lower_user_b user_a_neq_user_b)
  have some: "\<exists>r \<in> set (practice (tname userPracticeStats)).
                r ''userId'' = Some (JStr (toLowerCase user_a))"
    by (simp add: tname_simps practice_stats stats_a_userId lower_user_a)
  note absent = get_user_stats_zero_default [OF is_uuid_user_b, of practice, THEN conjunct1]
  note present = get_user_stats_zero_default [OF is_uuid_user_a, of practice, THEN conjunct2]
  from absent [THEN mp, OF none]
  have "\<exists>zero. get_user_stats practice user_b = (Json zero, practice)"
    by (elim exE conjE) (rule exI)
  then have b: "snd (get_user_stats practice user_b) = practice"
    by auto
  have b': "fst (get_user_stats practice user_b)
       = Json (Map.empty(''userId'' \<mapsto> JStr user_b, ''totalChallenges'' \<mapsto> JNum 0,
              ''totalSubmissions'' \<mapsto> JNum 0, ''averageScore'' \<mapsto> JStr ''0.00'',
              ''totalPoints'' \<mapsto> JNum 0, ''currentStreak'' \<mapsto> JNum 0,
              ''longestStreak'' \<mapsto> JNum 0))"
    by (simp add: get_user_stats_def select_userId is_uuid_user_b lower_user_b limit_def
          practice_stats stats_a_userId user_a_neq_user_b)
  from present [THEN mp, OF some]
  have "\<exists>r \<in> set (practice (tname userPracticeStats)).
          get_user_stats practice user_a = (Json r, practice)"
    by (elim bexE conjE) (rule bexI)
  then have a: "get_user_stats practice user_a = (Json stats_a, practice)"
    by (simp add: tname_simps practice_stats)
  from a b b' show ?thesis
    by (simp add: is_uuid_user_a is_uuid_user_b)
qed

section \<open>POST /api/code/format\<close>

text \<open>
  Claim C9. The handler answers 200 with an object whose \<open>formattedCode\<close> is the \<open>code\<close>
  of the request body, whatever value that is (and is missing when the body has no
  \<open>code\<close>); the object has no other property.
\<close>

theorem format_code_identity:
  "\<exists>out. format_code body = Json out \<and> out ''formattedCode'' = body ''code''
      \<and> (\<forall>k. k \<noteq> ''formattedCode'' \<longrightarrow> out k = None)"
  by (simp add: format_code_def)

theorem format_code_identity_witness:
  "format_code (Map.empty(''code'' \<mapsto> JStr ''let x = 1'', ''language'' \<mapsto> JStr ''javascript''))
     = Json (Map.empty(''formattedCode'' \<mapsto> JStr ''let x = 1''))"
proof -
  let ?b = "Map.empty(''code'' \<mapsto> JStr ''let x = 1'', ''language'' \<mapsto> JStr ''javascript'')"
  from format_code_identity [of ?b] obtain out where
    o: "format_code ?b = Json out" "out ''formattedCode'' = ?b ''code''"
       "\<forall>k. k \<noteq> ''formattedCode'' \<longrightarrow> out k = None"
    by blast
  have "out = Map.empty(''formattedCode'' \<mapsto> JStr ''let x = 1'')"
  proof
    fix k show "out k = (Map.empty(''formattedCode'' \<mapsto> JStr ''let x = 1'')) k"
      using o(2,3) by (cases "k = ''formattedCode''") auto
  qed
  with o(1) show ?thesis by simp
qed
section \<open>POST /api/coding-challenges/generate\<close>

subsection \<open>Upper case\<close>








subsection \<open>The stored challenge\<close>







end
